theory Spec2Isabelle
  imports Complex_Main
begin

section \<open>The impedance tensor class Z of mtpy/core/transfer_function/z.py\<close>

text \<open>
  The class \<^verbatim>\<open>Z\<close> stores a frequency-indexed stack of complex 2x2 matrices, two
  stacks of real standard deviations and a frequency axis, and derives apparent
  resistivity, phase and determinant quantities from them.

  Conventions of this development.
  \<^item> NumPy's \<^verbatim>\<open>float64\<close> and \<^verbatim>\<open>complex128\<close> are idealised as \<^typ>\<open>real\<close> and
    \<^typ>\<open>complex\<close>: rounding is not modelled, so "equal within floating tolerance"
    is read as equality of the exact values. NaN and Inf do not exist here; the
    theorems carry the hypotheses (non-zero scale factor, positive frequency, positive
    static-shift factor) under which NumPy produces neither.
  \<^item> An array of shape (N,2,2) is a list of N values of type \<open>'a mat2\<close>; the inner
    shape (2,2) is fixed by the type.
  \<^item> A Python exception is a value of type \<open>error\<close>. A pure read returns
    \<open>error + 'a\<close>; a method that assigns to \<^verbatim>\<open>self\<close> returns \<open>(error \<times> Z) + 'a\<close>, where the
    left summand carries the exception together with the object as the exception leaves it.
  \<^item> The base class \<^verbatim>\<open>TFBase\<close> (base.py), the module constants \<^verbatim>\<open>MT_TO_OHM_FACTOR\<close>
    and \<^verbatim>\<open>IMPEDANCE_UNITS\<close>, and the collaborators of \<^verbatim>\<open>pt\<close> and \<^verbatim>\<open>z_analysis\<close> are not
    among the sources. The constants and collaborators are parameters; the parts of the
    container that \<^verbatim>\<open>Z\<close> calls are modelled from the specification and marked so.
\<close>

subsection \<open>Arrays\<close>

datatype 'a mat2 = Mat2 (c_xx: 'a) (c_xy: 'a) (c_yx: 'a) (c_yy: 'a)

type_synonym carray = "complex mat2 list"
type_synonym farray = "real mat2 list"

text \<open>\<^verbatim>\<open>array * factor\<close> and \<^verbatim>\<open>array / factor\<close> for a real scalar factor.\<close>

definition arr_times :: "('a::real_algebra_1) mat2 list \<Rightarrow> real \<Rightarrow> 'a mat2 list" where
  "arr_times a f = map (map_mat2 (\<lambda>x. x * of_real f)) a"

definition arr_div :: "('a::real_div_algebra) mat2 list \<Rightarrow> real \<Rightarrow> 'a mat2 list" where
  "arr_div a f = map (map_mat2 (\<lambda>x. x / of_real f)) a"

text \<open>\<^verbatim>\<open>z + z_error\<close> and \<^verbatim>\<open>z - z_error\<close> on one complex and one real 2x2 matrix, and the
  determinant \<^verbatim>\<open>np.linalg.det\<close> of a 2x2 matrix.\<close>

definition mat_plus :: "complex mat2 \<Rightarrow> real mat2 \<Rightarrow> complex mat2" where
  "mat_plus m e = Mat2 (c_xx m + of_real (c_xx e)) (c_xy m + of_real (c_xy e))
                       (c_yx m + of_real (c_yx e)) (c_yy m + of_real (c_yy e))"

definition mat_minus :: "complex mat2 \<Rightarrow> real mat2 \<Rightarrow> complex mat2" where
  "mat_minus m e = Mat2 (c_xx m - of_real (c_xx e)) (c_xy m - of_real (c_xy e))
                        (c_yx m - of_real (c_yx e)) (c_yy m - of_real (c_yy e))"

definition det2 :: "complex mat2 \<Rightarrow> complex" where
  "det2 m = c_xx m * c_yy m - c_xy m * c_yx m"

subsection \<open>Exceptions\<close>

text \<open>
  \<open>TypeError\<close>, \<open>ValueError\<close>, \<open>KeyError\<close>, \<open>IndexError\<close>, \<open>NameError\<close> and \<open>AttributeError\<close>
  are the Python exceptions the code of z.py raises itself or through a built-in.
  \<open>ShapeMismatchError expected received\<close> is the specification's name for the rejection of an array whose
  leading dimension disagrees with the established one. \<open>InvalidFrequencyError\<close> stands
  for the rejection of a frequency that is not positive, for which the specification
  names no error kind.
\<close>

datatype error =
    TypeError
  | ValueError
  | KeyError
  | IndexError
  | NameError
  | AttributeError
  | ShapeMismatchError nat nat
  | InvalidFrequencyError

subsection \<open>The object\<close>

text \<open>
  \<open>ohm_factor\<close> is \<^verbatim>\<open>self._ohm_factor\<close>, \<open>units\<close> is \<^verbatim>\<open>self._units\<close>, and the remaining four
  fields are \<^verbatim>\<open>self._dataset\<close>: the stored arrays in canonical units (mV/km/nT) and the
  frequency axis. \<open>None\<close> is an absent array, which the container signals distinctly from
  a zero-filled one. \<^verbatim>\<open>self._unit_factors\<close> is set once, from a module constant, and is
  the function \<open>unit_factors\<close> below.
\<close>

record Z =
  ohm_factor :: real
  units :: string
  transfer_function :: "carray option"
  transfer_function_error :: "farray option"
  transfer_function_model_error :: "farray option"
  frequency :: "real list option"

subsection \<open>Units\<close>

text \<open>
  Modelled from the spec: the module constant \<^verbatim>\<open>IMPEDANCE_UNITS\<close> is missing from the
  sources. The specification gives it as the fixed map from the field unit to 1.0 and
  from the resistance unit to a fixed conversion constant; the keys \<^verbatim>\<open>mt\<close> and \<^verbatim>\<open>ohm\<close> are
  those of the docstrings of z.py. The conversion constant \<^verbatim>\<open>MT_TO_OHM_FACTOR\<close>, also
  missing, is the parameter.
\<close>

definition IMPEDANCE_UNITS :: "real \<Rightarrow> (string \<times> real) list" where
  "IMPEDANCE_UNITS MT_TO_OHM_FACTOR = [(''mt'', 1), (''ohm'', MT_TO_OHM_FACTOR)]"

definition unit_factors :: "Z \<Rightarrow> (string \<times> real) list" where
  "unit_factors self = IMPEDANCE_UNITS (ohm_factor self)"

text \<open>\<^verbatim>\<open>str.lower\<close> on ASCII strings.\<close>

definition lower_char :: "char \<Rightarrow> char" where
  "lower_char c =
     (let n = (of_char c :: nat) in if 65 \<le> n \<and> n \<le> 90 then char_of (n + 32) else c)"

definition lower :: "string \<Rightarrow> string" where
  "lower s = map lower_char s"

text \<open>
  The \<^verbatim>\<open>units\<close> setter. The argument is a string by its type, so the \<^verbatim>\<open>TypeError\<close> branch
  for a non-string is not reachable. The membership test is on the lower-cased value,
  the value stored is the one given.
\<close>

definition units_setter :: "string \<Rightarrow> Z \<Rightarrow> (error \<times> Z) + Z" where
  "units_setter v self =
     (if lower v \<notin> set (map fst (unit_factors self)) then Inl (ValueError, self)
      else Inr (self\<lparr>units := v\<rparr>))"

text \<open>The property \<^verbatim>\<open>_scale_factor\<close>: a dictionary lookup, \<^verbatim>\<open>KeyError\<close> on a missing key.\<close>

definition scale_factor :: "Z \<Rightarrow> error + real" where
  "scale_factor self =
     (case map_of (unit_factors self) (units self) of
        None \<Rightarrow> Inl KeyError
      | Some f \<Rightarrow> Inr f)"

subsection \<open>The container TFBase\<close>

text \<open>
  Modelled from the spec: the predicates \<^verbatim>\<open>_has_tf\<close>, \<^verbatim>\<open>_has_tf_error\<close>,
  \<^verbatim>\<open>_has_tf_model_error\<close>, \<^verbatim>\<open>_has_frequency\<close> and \<^verbatim>\<open>_is_empty\<close> of the missing base class.
  The container signals the absence of an array distinctly from a zero-filled array, and
  it is empty when nothing has been stored in it.
\<close>

definition has_tf :: "Z \<Rightarrow> bool" where
  "has_tf self = (transfer_function self \<noteq> None)"

definition has_tf_error :: "Z \<Rightarrow> bool" where
  "has_tf_error self = (transfer_function_error self \<noteq> None)"

definition has_tf_model_error :: "Z \<Rightarrow> bool" where
  "has_tf_model_error self = (transfer_function_model_error self \<noteq> None)"

definition has_frequency :: "Z \<Rightarrow> bool" where
  "has_frequency self = (frequency self \<noteq> None)"

definition is_empty :: "Z \<Rightarrow> bool" where
  "is_empty self =
     (\<not> has_tf self \<and> \<not> has_tf_error self \<and> \<not> has_tf_model_error self
      \<and> \<not> has_frequency self)"

text \<open>
  The attribute \<^verbatim>\<open>shape\<close> of an array that is stored, and the size of the frequency axis,
  reduced to the leading dimension.
\<close>

definition shape :: "'a list option \<Rightarrow> nat option" where
  "shape a = map_option length a"

text \<open>
  Modelled from the spec: \<^verbatim>\<open>_initialize\<close>, the container's "initialize from first write".
  It builds a fresh dataset that holds exactly the arrays it is given.
\<close>

definition initialize :: "Z \<Rightarrow> carray option \<Rightarrow> farray option \<Rightarrow> farray option \<Rightarrow> Z" where
  "initialize self tf tf_error tf_model_error =
     self\<lparr>transfer_function := tf, transfer_function_error := tf_error,
          transfer_function_model_error := tf_model_error, frequency := None\<rparr>"

text \<open>
  Modelled from the spec: \<^verbatim>\<open>_validate_array_input\<close>. \<^verbatim>\<open>None\<close> is passed through (the setter
  then returns quietly). An array is coerced to the expected element type and must have
  shape (N,2,2), both of which the type of the argument fixes here; if a shape is
  already established, a different N raises the shape-mismatch error, which names the
  expected and the received length.
\<close>

definition validate_array_input :: "'a list option \<Rightarrow> nat option \<Rightarrow> error + 'a list option" where
  "validate_array_input tf_array old_shape =
     (case tf_array of
        None \<Rightarrow> Inr None
      | Some a \<Rightarrow>
          (case old_shape of
             None \<Rightarrow> Inr (Some a)
           | Some n \<Rightarrow>
               if length a \<noteq> n then Inl (ShapeMismatchError n (length a))
               else Inr (Some a)))"

text \<open>
  Modelled from the spec: \<^verbatim>\<open>_validate_frequency\<close>. The frequency is validated for
  positivity and, when a leading dimension is established, for its length.
\<close>

definition validate_frequency :: "real list \<Rightarrow> nat option \<Rightarrow> error + real list" where
  "validate_frequency fr n_frequencies =
     (if \<not> list_all (\<lambda>f. 0 < f) fr then Inl InvalidFrequencyError
      else (case n_frequencies of
              None \<Rightarrow> Inr fr
            | Some n \<Rightarrow>
                if length fr \<noteq> n then Inl (ShapeMismatchError n (length fr))
                else Inr fr))"

text \<open>The leading dimension that the given arrays establish: that of the first one present.\<close>

definition established :: "carray option \<Rightarrow> farray option \<Rightarrow> farray option \<Rightarrow> nat option" where
  "established tf tf_error tf_model_error =
     (case tf of
        Some a \<Rightarrow> Some (length a)
      | None \<Rightarrow>
          (case tf_error of
             Some e \<Rightarrow> Some (length e)
           | None \<Rightarrow> shape tf_model_error))"

text \<open>
  Modelled from the spec: the attribute \<^verbatim>\<open>shape\<close> of a variable of the dataset, reduced to
  its leading dimension. The setters of the two error arrays read
  \<^verbatim>\<open>self._dataset.transfer_function_error.shape\<close> exactly when no such array has been
  assigned (z.py 174-175 and 211-212), so a variable of the dataset has a shape whether
  or not it holds data: the leading dimension of the dataset, which is that of the arrays
  stored, else that of the frequency axis. The dataset of a container that holds neither
  has a single period; this length is not stated by the specification and is the one the
  container gives a dataset built without data.
\<close>

definition dataset_shape :: "Z \<Rightarrow> nat option" where
  "dataset_shape self =
     (case established (transfer_function self) (transfer_function_error self)
             (transfer_function_model_error self) of
        Some n \<Rightarrow> Some n
      | None \<Rightarrow>
          (case frequency self of
             Some fr \<Rightarrow> Some (length fr)
           | None \<Rightarrow> Some 1))"

text \<open>
  Modelled from the spec: the \<^verbatim>\<open>frequency\<close> setter of the base class. \<^verbatim>\<open>None\<close> is a no-op;
  otherwise the frequency is validated against the arrays already stored and replaces
  the frequency axis.
\<close>

definition frequency_setter :: "real list option \<Rightarrow> Z \<Rightarrow> (error \<times> Z) + Z" where
  "frequency_setter v self =
     (case v of
        None \<Rightarrow> Inr self
      | Some fr \<Rightarrow>
          (case validate_frequency fr
                  (established (transfer_function self) (transfer_function_error self)
                     (transfer_function_model_error self)) of
             Inl e \<Rightarrow> Inl (e, self)
           | Inr fr' \<Rightarrow> Inr (self\<lparr>frequency := Some fr'\<rparr>)))"

text \<open>
  Modelled from the spec: \<^verbatim>\<open>TFBase.__init__\<close>. The arrays are each optional; those present
  must agree in their leading dimension, and the frequency, when given, must be positive
  and of that length. The object is then populated with what was given.
\<close>

definition TFBase_init ::
  "Z \<Rightarrow> carray option \<Rightarrow> farray option \<Rightarrow> farray option \<Rightarrow> real list option \<Rightarrow> error + Z" where
  "TFBase_init self tf tf_error tf_model_error freq =
     (let n = established tf tf_error tf_model_error in
      case validate_array_input tf_error n of
        Inl e \<Rightarrow> Inl e
      | Inr tf_error' \<Rightarrow>
          (case validate_array_input tf_model_error n of
             Inl e \<Rightarrow> Inl e
           | Inr tf_model_error' \<Rightarrow>
               (case freq of
                  None \<Rightarrow>
                    Inr (self\<lparr>transfer_function := tf, transfer_function_error := tf_error',
                          transfer_function_model_error := tf_model_error',
                          frequency := None\<rparr>)
                | Some fr \<Rightarrow>
                    (case validate_frequency fr n of
                       Inl e \<Rightarrow> Inl e
                     | Inr fr' \<Rightarrow>
                         Inr (self\<lparr>transfer_function := tf,
                               transfer_function_error := tf_error',
                               transfer_function_model_error := tf_model_error',
                               frequency := Some fr'\<rparr>)))))"

subsection \<open>Construction\<close>

text \<open>
  \<^verbatim>\<open>Z.__init__\<close>. The module constants are set first and the units validated; each
  array that is given is multiplied by the scale factor, which is looked up only then;
  the container is initialised last. \<open>MT_TO_OHM_FACTOR\<close> is the missing module constant.
\<close>

definition Z_init ::
  "real \<Rightarrow> carray option \<Rightarrow> farray option \<Rightarrow> real list option \<Rightarrow> farray option \<Rightarrow> string
     \<Rightarrow> error + Z" where
  "Z_init MT_TO_OHM_FACTOR z z_error freq z_model_error units_arg =
     (let self0 = \<lparr>ohm_factor = MT_TO_OHM_FACTOR,
                   units = [], transfer_function = None, transfer_function_error = None,
                   transfer_function_model_error = None, frequency = None\<rparr> in
      case units_setter units_arg self0 of
        Inl (e, _) \<Rightarrow> Inl e
      | Inr self1 \<Rightarrow>
          if z = None \<and> z_error = None \<and> z_model_error = None
          then TFBase_init self1 None None None freq
          else (case scale_factor self1 of
                  Inl e \<Rightarrow> Inl e
                | Inr f \<Rightarrow>
                    TFBase_init self1
                      (map_option (\<lambda>a. arr_times a f) z)
                      (map_option (\<lambda>a. arr_times a f) z_error)
                      (map_option (\<lambda>a. arr_times a f) z_model_error)
                      freq))"

subsection \<open>The tensor and its two error arrays\<close>

text \<open>The getter of \<^verbatim>\<open>z\<close>: the stored values divided by the scale factor, \<^verbatim>\<open>None\<close> without
  a tensor.\<close>

definition z_getter :: "Z \<Rightarrow> error + carray option" where
  "z_getter self =
     (if has_tf self
      then (case scale_factor self of
              Inl e \<Rightarrow> Inl e
            | Inr f \<Rightarrow> Inr (map_option (\<lambda>a. arr_div a f) (transfer_function self)))
      else Inr None)"

text \<open>
  The setter of \<^verbatim>\<open>z\<close>. The expected shape is that of the stored tensor, or else that of
  the frequency axis; the validated array is stored as it is given (the docstring asks
  for units of mV/km/nT), by initialising an empty container or by assigning to the
  stored tensor.
\<close>

definition z_setter :: "carray option \<Rightarrow> Z \<Rightarrow> (error \<times> Z) + Z" where
  "z_setter v self =
     (let old_shape =
            (if has_tf self then shape (transfer_function self)
             else if has_frequency self then shape (frequency self)
             else None) in
      case validate_array_input v old_shape of
        Inl e \<Rightarrow> Inl (e, self)
      | Inr None \<Rightarrow> Inr self
      | Inr (Some a) \<Rightarrow>
          if is_empty self then Inr (initialize self (Some a) None None)
          else Inr (self\<lparr>transfer_function := Some a\<rparr>))"

definition z_error_getter :: "Z \<Rightarrow> error + farray option" where
  "z_error_getter self =
     (if has_tf_error self
      then (case scale_factor self of
              Inl e \<Rightarrow> Inl e
            | Inr f \<Rightarrow> Inr (map_option (\<lambda>a. arr_div a f) (transfer_function_error self)))
      else Inr None)"

text \<open>
  The setter of \<^verbatim>\<open>z_error\<close>. Its first test is \<^verbatim>\<open>if not self._has_tf_error()\<close>: without
  an error array the expected shape is the shape that the dataset gives its error
  variable, and with one it is that of the frequency axis, if there is a frequency.
\<close>

definition z_error_setter :: "farray option \<Rightarrow> Z \<Rightarrow> (error \<times> Z) + Z" where
  "z_error_setter v self =
     (let old_shape =
            (if \<not> has_tf_error self then dataset_shape self
             else if has_frequency self then shape (frequency self)
             else None) in
      case validate_array_input v old_shape of
        Inl e \<Rightarrow> Inl (e, self)
      | Inr None \<Rightarrow> Inr self
      | Inr (Some a) \<Rightarrow>
          if is_empty self then Inr (initialize self None (Some a) None)
          else Inr (self\<lparr>transfer_function_error := Some a\<rparr>))"

definition z_model_error_getter :: "Z \<Rightarrow> error + farray option" where
  "z_model_error_getter self =
     (if has_tf_model_error self
      then (case scale_factor self of
              Inl e \<Rightarrow> Inl e
            | Inr f \<Rightarrow>
                Inr (map_option (\<lambda>a. arr_div a f) (transfer_function_model_error self)))
      else Inr None)"

text \<open>
  The setter of \<^verbatim>\<open>z_model_error\<close>. Without a stored model error the expected shape is
  the shape that the dataset gives \<^verbatim>\<open>transfer_function_error\<close>, and an empty container is
  initialised with \<^verbatim>\<open>tf_error=z_model_error\<close>; a container that is not empty gets the
  array as its model error.
\<close>

definition z_model_error_setter :: "farray option \<Rightarrow> Z \<Rightarrow> (error \<times> Z) + Z" where
  "z_model_error_setter v self =
     (let old_shape =
            (if \<not> has_tf_model_error self then dataset_shape self
             else if has_frequency self then shape (frequency self)
             else None) in
      case validate_array_input v old_shape of
        Inl e \<Rightarrow> Inl (e, self)
      | Inr None \<Rightarrow> Inr self
      | Inr (Some a) \<Rightarrow>
          if is_empty self then Inr (initialize self None (Some a) None)
          else Inr (self\<lparr>transfer_function_model_error := Some a\<rparr>))"

subsection \<open>Elementwise arithmetic on two arrays\<close>

text \<open>
  Two arrays are combined entry by entry along the frequency axis. Arrays of different
  leading dimensions make NumPy raise \<^verbatim>\<open>ValueError\<close> (operands could not be broadcast);
  the broadcast of an axis of length one against a longer one is not modelled, the arrays
  of one dataset sharing their leading dimension.
\<close>

definition zip_same :: "'a list \<Rightarrow> 'b list \<Rightarrow> error + ('a \<times> 'b) list" where
  "zip_same xs ys = (if length xs = length ys then Inr (zip xs ys) else Inl ValueError)"

definition zip_mat2 :: "('a \<Rightarrow> 'b \<Rightarrow> 'c) \<Rightarrow> 'a mat2 \<Rightarrow> 'b mat2 \<Rightarrow> 'c mat2" where
  "zip_mat2 g a b =
     Mat2 (g (c_xx a) (c_xx b)) (g (c_xy a) (c_xy b)) (g (c_yx a) (c_yx b)) (g (c_yy a) (c_yy b))"

text \<open>\<^verbatim>\<open>np.radians\<close> and \<^verbatim>\<open>np.rad2deg\<close> (\<^verbatim>\<open>np.degrees\<close>).\<close>

definition radians :: "real \<Rightarrow> real" where
  "radians x = x * pi / 180"

definition rad2deg :: "real \<Rightarrow> real" where
  "rad2deg x = x * 180 / pi"

subsection \<open>Static shift\<close>

text \<open>
  A static-shift factor is a Python number, a list of numbers or a one-dimensional
  array of numbers. Strings (the only arguments on which \<^verbatim>\<open>float\<close> raises the
  \<^verbatim>\<open>ValueError\<close> that \<^verbatim>\<open>_validate_factor_single\<close> catches) are excluded by the type.
\<close>

datatype factor = Scalar real | PyList "real list" | NdArray "real list"

text \<open>\<^verbatim>\<open>np.iterable\<close>, \<^verbatim>\<open>len\<close> and \<^verbatim>\<open>float\<close> on a factor: a number has no length, and only a
  number or an array of one element converts to a float.\<close>

fun np_iterable :: "factor \<Rightarrow> bool" where
  "np_iterable (Scalar r) = False"
| "np_iterable (PyList xs) = True"
| "np_iterable (NdArray xs) = True"

fun py_len :: "factor \<Rightarrow> error + nat" where
  "py_len (Scalar r) = Inl TypeError"
| "py_len (PyList xs) = Inr (length xs)"
| "py_len (NdArray xs) = Inr (length xs)"

fun py_float :: "factor \<Rightarrow> error + real" where
  "py_float (Scalar r) = Inr r"
| "py_float (PyList xs) = Inl TypeError"
| "py_float (NdArray xs) = (case xs of [x] \<Rightarrow> Inr x | _ \<Rightarrow> Inl TypeError)"

text \<open>\<^verbatim>\<open>np.array(factor, dtype=float)\<close>, which is reached for an iterable factor only.\<close>

fun np_array :: "factor \<Rightarrow> real list" where
  "np_array (Scalar r) = [r]"
| "np_array (PyList xs) = xs"
| "np_array (NdArray xs) = xs"

text \<open>\<^verbatim>\<open>len(self.z)\<close>: the getter may raise, and \<^verbatim>\<open>None\<close> has no length.\<close>

definition len_z :: "Z \<Rightarrow> error + nat" where
  "len_z self =
     (case z_getter self of
        Inl e \<Rightarrow> Inl e
      | Inr None \<Rightarrow> Inl TypeError
      | Inr (Some a) \<Rightarrow> Inr (length a))"

definition validate_factor_single :: "Z \<Rightarrow> factor \<Rightarrow> error + real list" where
  "validate_factor_single self factor =
     (case py_float factor of
        Inl e \<Rightarrow> Inl e
      | Inr x_factor \<Rightarrow>
          (case len_z self of
             Inl e \<Rightarrow> Inl e
           | Inr n \<Rightarrow> Inr (replicate n x_factor)))"

text \<open>
  \<^verbatim>\<open>_validate_ss_input\<close> is a closure of \<^verbatim>\<open>remove_ss\<close>: besides its argument \<open>factor\<close> it
  reads \<^verbatim>\<open>reduce_res_factor_x\<close> of the enclosing call, in the test of its second branch.
\<close>

definition validate_ss_input :: "Z \<Rightarrow> factor \<Rightarrow> factor \<Rightarrow> error + real list" where
  "validate_ss_input self reduce_res_factor_x factor =
     (case (if \<not> np_iterable factor then validate_factor_single self factor
            else (case py_len reduce_res_factor_x of
                    Inl e \<Rightarrow> Inl e
                  | Inr l \<Rightarrow>
                      if l = 1 then validate_factor_single self factor
                      else Inr (np_array factor))) of
        Inl e \<Rightarrow> Inl e
      | Inr x_factor \<Rightarrow>
          (case len_z self of
             Inl e \<Rightarrow> Inl e
           | Inr n \<Rightarrow> if length x_factor \<noteq> n then Inl ValueError else Inr x_factor))"

text \<open>One frequency of the correction: the row xx, xy is rescaled to canonical units and
  divided by the x factor, the row yx, yy by the y factor.\<close>

definition ss_correct :: "real \<Rightarrow> complex mat2 \<times> real \<times> real \<Rightarrow> complex mat2" where
  "ss_correct f t =
     (case t of (m, x_factor, y_factor) \<Rightarrow>
        Mat2 (c_xx m * of_real f / of_real x_factor) (c_xy m * of_real f / of_real x_factor)
             (c_yx m * of_real f / of_real y_factor) (c_yy m * of_real f / of_real y_factor))"

text \<open>
  \<^verbatim>\<open>remove_ss\<close> returns the object after the call together with the value returned:
  \<open>None\<close> when \<open>inplace\<close>, the new object otherwise.
\<close>

definition remove_ss :: "Z \<Rightarrow> factor \<Rightarrow> factor \<Rightarrow> bool \<Rightarrow> (error \<times> Z) + (Z \<times> Z option)" where
  "remove_ss self reduce_res_factor_x reduce_res_factor_y inplace =
     (case validate_ss_input self reduce_res_factor_x reduce_res_factor_x of
        Inl e \<Rightarrow> Inl (e, self)
      | Inr xv \<Rightarrow>
     (case validate_ss_input self reduce_res_factor_x reduce_res_factor_y of
        Inl e \<Rightarrow> Inl (e, self)
      | Inr yv \<Rightarrow>
     (case z_getter self of
        Inl e \<Rightarrow> Inl (e, self)
      | Inr None \<Rightarrow> Inl (TypeError, self)
      | Inr (Some zd) \<Rightarrow>
     (case scale_factor self of
        Inl e \<Rightarrow> Inl (e, self)
      | Inr f \<Rightarrow>
          (let x_factors = map sqrt xv;
               y_factors = map sqrt yv;
               z_corrected = arr_div (map (ss_correct f) (zip zd (zip x_factors y_factors))) f
           in if inplace
              then (case z_setter (Some z_corrected) self of
                      Inl x \<Rightarrow> Inl x
                    | Inr self' \<Rightarrow> Inr (self', None))
              else (case z_error_getter self of
                      Inl e \<Rightarrow> Inl (e, self)
                    | Inr ze \<Rightarrow>
                   (case z_model_error_getter self of
                      Inl e \<Rightarrow> Inl (e, self)
                    | Inr zme \<Rightarrow>
                   (case Z_init (ohm_factor self) (Some z_corrected) ze (frequency self) zme
                           (units self) of
                      Inl e \<Rightarrow> Inl (e, self)
                    | Inr new \<Rightarrow> Inr (self, Some new)))))))))"

subsection \<open>Resistivity and phase\<close>

text \<open>
  \<^verbatim>\<open>resistivity\<close> applies \<^verbatim>\<open>abs(x) ** 2 / self.frequency * 0.2\<close> along the frequency axis of
  \<^verbatim>\<open>self.z * self._scale_factor\<close>; \<^verbatim>\<open>phase\<close> is the angle of the same array in degrees.
  Dividing by an absent frequency is a \<^verbatim>\<open>TypeError\<close>.
\<close>

definition resistivity :: "Z \<Rightarrow> error + farray option" where
  "resistivity self =
     (case z_getter self of
        Inl e \<Rightarrow> Inl e
      | Inr None \<Rightarrow> Inr None
      | Inr (Some zd) \<Rightarrow>
     (case scale_factor self of
        Inl e \<Rightarrow> Inl e
      | Inr f \<Rightarrow>
     (case frequency self of
        None \<Rightarrow> Inl TypeError
      | Some fr \<Rightarrow>
     (case zip_same (arr_times zd f) fr of
        Inl e \<Rightarrow> Inl e
      | Inr ps \<Rightarrow>
          Inr (Some (map (\<lambda>(m, w). map_mat2 (\<lambda>x. (cmod x)\<^sup>2 / w * 0.2) m) ps))))))"

definition phase :: "Z \<Rightarrow> error + farray option" where
  "phase self =
     (case z_getter self of
        Inl e \<Rightarrow> Inl e
      | Inr None \<Rightarrow> Inr None
      | Inr (Some zd) \<Rightarrow>
     (case scale_factor self of
        Inl e \<Rightarrow> Inl e
      | Inr f \<Rightarrow> Inr (Some (map (map_mat2 (\<lambda>x. rad2deg (Arg x))) (arr_times zd f)))))"

text \<open>\<^verbatim>\<open>_get_component\<close>: the last two characters of the argument \<^verbatim>\<open>comp\<close> (here
  \<open>comp_label\<close>) index the 2x2 matrices.\<close>

definition index_dict :: "char \<Rightarrow> error + nat" where
  "index_dict c =
     (if c = CHR ''x'' then Inr 0 else if c = CHR ''y'' then Inr 1 else Inl KeyError)"

definition mat2_at :: "nat \<Rightarrow> nat \<Rightarrow> 'a mat2 \<Rightarrow> 'a" where
  "mat2_at ii jj m =
     (if ii = 0 then (if jj = 0 then c_xx m else c_xy m)
      else (if jj = 0 then c_yx m else c_yy m))"

definition get_component :: "string \<Rightarrow> 'a mat2 list option \<Rightarrow> error + 'a list option" where
  "get_component comp_label array =
     (case array of
        None \<Rightarrow> Inr None
      | Some a \<Rightarrow>
          if length comp_label < 2 then Inl IndexError
          else (case index_dict (comp_label ! (length comp_label - 2)) of
                  Inl e \<Rightarrow> Inl e
                | Inr ii \<Rightarrow>
                    (case index_dict (comp_label ! (length comp_label - 1)) of
                       Inl e \<Rightarrow> Inl e
                     | Inr jj \<Rightarrow> Inr (Some (map (mat2_at ii jj) a)))))"

definition res_xx :: "Z \<Rightarrow> error + real list option" where
  "res_xx self =
     (case resistivity self of Inl e \<Rightarrow> Inl e | Inr r \<Rightarrow> get_component ''xx'' r)"

definition phase_xx :: "Z \<Rightarrow> error + real list option" where
  "phase_xx self =
     (case phase self of Inl e \<Rightarrow> Inl e | Inr r \<Rightarrow> get_component ''xx'' r)"

subsection \<open>Determinant and its errors\<close>

text \<open>\<^verbatim>\<open>det\<close>: the complex square root of the determinant of each canonical matrix.\<close>

definition det :: "Z \<Rightarrow> error + complex list option" where
  "det self =
     (case z_getter self of
        Inl e \<Rightarrow> Inl e
      | Inr None \<Rightarrow> Inr None
      | Inr (Some zd) \<Rightarrow>
     (case scale_factor self of
        Inl e \<Rightarrow> Inl e
      | Inr f \<Rightarrow>
          Inr (Some (map (\<lambda>ii. csqrt (det2 (map_mat2 (\<lambda>x. x * of_real f) ii))) zd))))"

text \<open>The finite-difference term \<^verbatim>\<open>(np.abs(det(z + e) - det(z - e)) / 2.0) ** 0.5\<close> of one
  frequency; the power 0.5 of a non-negative real is its square root.\<close>

definition det_diff :: "complex mat2 \<times> real mat2 \<Rightarrow> real" where
  "det_diff t =
     (case t of (m, e) \<Rightarrow> sqrt (cmod (det2 (mat_plus m e) - det2 (mat_minus m e)) / 2))"

text \<open>
  \<^verbatim>\<open>det_error\<close> and \<^verbatim>\<open>det_model_error\<close>. Both read the arrays through the getters, that
  is in display units. \<^verbatim>\<open>self.det\<close> only gives the result its shape; adding an array to an
  absent tensor is a \<^verbatim>\<open>TypeError\<close>.
\<close>

definition det_error :: "Z \<Rightarrow> error + real list option" where
  "det_error self =
     (case z_error_getter self of
        Inl e \<Rightarrow> Inl e
      | Inr None \<Rightarrow> Inr None
      | Inr (Some ed) \<Rightarrow>
     (case scale_factor self of
        Inl e \<Rightarrow> Inl e
      | Inr f \<Rightarrow>
     (case z_getter self of
        Inl e \<Rightarrow> Inl e
      | Inr None \<Rightarrow> Inl TypeError
      | Inr (Some zd) \<Rightarrow>
     (case zip_same zd ed of
        Inl e \<Rightarrow> Inl e
      | Inr ps \<Rightarrow> Inr (Some (map (\<lambda>t. f * det_diff t) ps))))))"

definition det_model_error :: "Z \<Rightarrow> error + real list option" where
  "det_model_error self =
     (case z_model_error_getter self of
        Inl e \<Rightarrow> Inl e
      | Inr None \<Rightarrow> Inr None
      | Inr (Some ed) \<Rightarrow>
     (case z_getter self of
        Inl e \<Rightarrow> Inl e
      | Inr None \<Rightarrow> Inl TypeError
      | Inr (Some zd) \<Rightarrow>
     (case zip_same zd ed of
        Inl e \<Rightarrow> Inl e
      | Inr ps \<Rightarrow> Inr (Some (map det_diff ps)))))"

subsection \<open>Reconstruction from resistivity and phase\<close>

text \<open>
  \<^verbatim>\<open>_compute_z_error\<close>: \<^verbatim>\<open>None\<close> without a resistivity error, otherwise
  \<^verbatim>\<open>abs(sqrt(frequency * res_error.T * 250).T * tan(radians(phase_error)))\<close>. An absent
  frequency or phase error in the arithmetic is a \<^verbatim>\<open>TypeError\<close>.
\<close>

definition compute_z_error :: "Z \<Rightarrow> farray option \<Rightarrow> farray option \<Rightarrow> error + farray option" where
  "compute_z_error self res_error phase_error =
     (case res_error of
        None \<Rightarrow> Inr None
      | Some re \<Rightarrow>
     (case frequency self of
        None \<Rightarrow> Inl TypeError
      | Some fr \<Rightarrow>
     (case zip_same fr re of
        Inl e \<Rightarrow> Inl e
      | Inr ps \<Rightarrow>
     (case phase_error of
        None \<Rightarrow> Inl TypeError
      | Some pe \<Rightarrow>
     (case zip_same (map (\<lambda>(w, m). map_mat2 (\<lambda>x. sqrt (w * x * 250)) m) ps) pe of
        Inl e \<Rightarrow> Inl e
      | Inr qs \<Rightarrow>
          Inr (Some (map (\<lambda>(a, b). zip_mat2 (\<lambda>u v. \<bar>u * tan (radians v)\<bar>) a b) qs)))))))"

text \<open>
  \<^verbatim>\<open>set_resistivity_phase\<close>. The frequency is validated and set first. The four error
  arguments are passed through \<^verbatim>\<open>_validate_array_input\<close> without an expected shape. The
  tensor \<^verbatim>\<open>sqrt(5.0 * frequency * resistivity.T).T * exp(1j * radians(phase))\<close> goes through
  the setter of \<^verbatim>\<open>z\<close>, and the two computed errors through their setters.
\<close>

definition set_resistivity_phase ::
  "Z \<Rightarrow> farray option \<Rightarrow> farray option \<Rightarrow> real list option \<Rightarrow> farray option \<Rightarrow> farray option
     \<Rightarrow> farray option \<Rightarrow> farray option \<Rightarrow> (error \<times> Z) + Z" where
  "set_resistivity_phase self resistivity_arg phase_arg frequency_arg res_error phase_error
       res_model_error phase_model_error =
     (case (resistivity_arg, phase_arg, frequency_arg) of
        (Some res, Some ph, Some fr) \<Rightarrow>
          (case validate_frequency fr None of
             Inl e \<Rightarrow> Inl (e, self)
           | Inr fr' \<Rightarrow>
          (case frequency_setter (Some fr') self of
             Inl x \<Rightarrow> Inl x
           | Inr self1 \<Rightarrow>
          (case (validate_array_input (Some res) None, validate_array_input (Some ph) None,
                 validate_array_input res_error None, validate_array_input phase_error None,
                 validate_array_input res_model_error None,
                 validate_array_input phase_model_error None, frequency self1) of
             (Inr (Some res'), Inr (Some ph'), Inr res_error', Inr phase_error',
              Inr res_model_error', Inr phase_model_error', Some w) \<Rightarrow>
               (case zip_same w res' of
                  Inl e \<Rightarrow> Inl (e, self1)
                | Inr ps \<Rightarrow>
               (case zip_same (map (\<lambda>(w, m). map_mat2 (\<lambda>x. sqrt (5.0 * w * x)) m) ps) ph' of
                  Inl e \<Rightarrow> Inl (e, self1)
                | Inr qs \<Rightarrow>
               (case z_setter
                       (Some (map (\<lambda>(abs_z, p).
                                zip_mat2 (\<lambda>a v. of_real a * exp (\<i> * of_real (radians v))) abs_z p)
                              qs))
                       self1 of
                  Inl x \<Rightarrow> Inl x
                | Inr self2 \<Rightarrow>
               (case compute_z_error self2 res_error' phase_error' of
                  Inl e \<Rightarrow> Inl (e, self2)
                | Inr ze \<Rightarrow>
               (case z_error_setter ze self2 of
                  Inl x \<Rightarrow> Inl x
                | Inr self3 \<Rightarrow>
               (case compute_z_error self3 res_model_error' phase_model_error' of
                  Inl e \<Rightarrow> Inl (e, self3)
                | Inr zme \<Rightarrow> z_model_error_setter zme self3))))))
           | _ \<Rightarrow> Inl (TypeError, self1))))
      | _ \<Rightarrow> Inr self)"

subsection \<open>Dimensionality\<close>

text \<open>
  The phase tensor is a collaborator (pt.py, not among the sources). What \<^verbatim>\<open>Z\<close> reads of
  it are the two sequences \<^verbatim>\<open>eccentricity\<close> and \<^verbatim>\<open>skew\<close>. Its constructor is the parameter
  \<open>PT\<close> of \<open>phase_tensor\<close>.
\<close>

record PhaseTensor =
  eccentricity :: "real list"
  skew :: "real list"

type_synonym phase_tensor_ctor =
  "carray option \<Rightarrow> farray option \<Rightarrow> farray option \<Rightarrow> real list option \<Rightarrow> error + PhaseTensor"

definition phase_tensor :: "phase_tensor_ctor \<Rightarrow> Z \<Rightarrow> error + PhaseTensor" where
  "phase_tensor PT self =
     (case z_getter self of
        Inl e \<Rightarrow> Inl e
      | Inr zd \<Rightarrow>
     (case z_error_getter self of
        Inl e \<Rightarrow> Inl e
      | Inr ze \<Rightarrow>
     (case z_model_error_getter self of
        Inl e \<Rightarrow> Inl e
      | Inr zme \<Rightarrow> PT zd ze zme (frequency self))))"

text \<open>
  Modelled from the spec: \<^verbatim>\<open>self.period.size\<close>, the length of the frequency axis of the
  container (the period is the reciprocal of the frequency).
\<close>

definition period_size :: "Z \<Rightarrow> error + nat" where
  "period_size self =
     (case frequency self of
        None \<Rightarrow> Inl TypeError
      | Some fr \<Rightarrow> Inr (length fr))"

text \<open>
  \<^verbatim>\<open>a[np.where(cond)] = v\<close>: the positions at which \<open>cond\<close> holds are assigned \<open>v\<close>; a
  position outside of \<open>a\<close> is an \<^verbatim>\<open>IndexError\<close>.
\<close>

definition assign_where :: "bool list \<Rightarrow> int \<Rightarrow> int list \<Rightarrow> error + int list" where
  "assign_where cond v a =
     (let idx = filter (\<lambda>i. cond ! i) [0..<length cond] in
      if list_ex (\<lambda>i. length a \<le> i) idx then Inl IndexError
      else Inr (fold (\<lambda>i b. b[i := v]) idx a))"

definition estimate_dimensionality ::
  "phase_tensor_ctor \<Rightarrow> Z \<Rightarrow> real \<Rightarrow> real \<Rightarrow> error + int list" where
  "estimate_dimensionality PT self skew_threshold eccentricity_threshold =
     (case period_size self of
        Inl e \<Rightarrow> Inl e
      | Inr n \<Rightarrow>
     (case phase_tensor PT self of
        Inl e \<Rightarrow> Inl e
      | Inr pt1 \<Rightarrow>
     (case assign_where (map (\<lambda>x. x > eccentricity_threshold) (eccentricity pt1)) 2
             (replicate n 1) of
        Inl e \<Rightarrow> Inl e
      | Inr dimensionality \<Rightarrow>
     (case phase_tensor PT self of
        Inl e \<Rightarrow> Inl e
      | Inr pt2 \<Rightarrow>
          assign_where (map (\<lambda>x. \<bar>x\<bar> > skew_threshold) (skew pt2)) 3 dimensionality))))"

subsection \<open>Distortion\<close>

text \<open>
  \<^verbatim>\<open>find_distortion\<close> and \<^verbatim>\<open>remove_distortion_from_z_object\<close> are collaborators
  (z_analysis.py, not among the sources): the parameters \<open>FD\<close> and \<open>RD\<close>.
\<close>

type_synonym find_distortion_fn =
  "Z \<Rightarrow> string \<Rightarrow> bool \<Rightarrow> bool \<Rightarrow> error + (real mat2 \<times> real mat2)"

type_synonym remove_distortion_fn =
  "Z \<Rightarrow> real mat2 \<Rightarrow> real mat2 option \<Rightarrow> error + (carray \<times> farray)"

text \<open>
  \<^verbatim>\<open>estimate_distortion\<close>: the first \<open>nf\<close> frequencies of the stored tensor (and of the
  stored error) make a new object with the default units; without a tensor the name
  \<^verbatim>\<open>new_z_object\<close> is unbound.
\<close>

definition estimate_distortion ::
  "find_distortion_fn \<Rightarrow> Z \<Rightarrow> nat option \<Rightarrow> string \<Rightarrow> bool \<Rightarrow> bool
     \<Rightarrow> error + (real mat2 \<times> real mat2)" where
  "estimate_distortion FD self n_frequencies comp_arg only_2d clockwise =
     (case (case n_frequencies of
              None \<Rightarrow> (case frequency self of None \<Rightarrow> Inl AttributeError
                                               | Some fr \<Rightarrow> Inr (length fr))
            | Some k \<Rightarrow> Inr k) of
        Inl e \<Rightarrow> Inl e
      | Inr nf \<Rightarrow>
          if has_tf self
          then (case frequency self of
                  None \<Rightarrow> Inl TypeError
                | Some fr \<Rightarrow>
               (case Z_init (ohm_factor self)
                       (map_option (take nf) (transfer_function self)) None
                       (Some (take nf fr)) None ''mt'' of
                  Inl e \<Rightarrow> Inl e
                | Inr new_z_object \<Rightarrow>
                    if has_tf_error self
                    then (case z_error_setter
                                 (map_option (take nf) (transfer_function_error self))
                                 new_z_object of
                            Inl (e, _) \<Rightarrow> Inl e
                          | Inr new_z_object' \<Rightarrow> FD new_z_object' comp_arg only_2d clockwise)
                    else FD new_z_object comp_arg only_2d clockwise))
          else Inl NameError)"

text \<open>
  \<^verbatim>\<open>remove_distortion\<close>. The corrected tensor and error of the collaborator are multiplied
  by the scale factor. In place they go through the setters of \<^verbatim>\<open>z\<close> and \<^verbatim>\<open>z_error\<close>;
  otherwise a new object is built with the default units from them, the frequency and
  \<^verbatim>\<open>self.z_model_error\<close>, and its units are set afterwards.
\<close>

definition remove_distortion ::
  "find_distortion_fn \<Rightarrow> remove_distortion_fn \<Rightarrow> Z \<Rightarrow> real mat2 option \<Rightarrow> real mat2 option
     \<Rightarrow> nat option \<Rightarrow> string \<Rightarrow> bool \<Rightarrow> bool \<Rightarrow> (error \<times> Z) + (Z \<times> Z option)" where
  "remove_distortion FD RD self distortion_tensor distortion_error_tensor n_frequencies
       comp_arg only_2d inplace =
     (case (case distortion_tensor of
              None \<Rightarrow>
                (case estimate_distortion FD self n_frequencies comp_arg only_2d True of
                   Inl e \<Rightarrow> Inl e
                 | Inr (d, de) \<Rightarrow> Inr (d, Some de))
            | Some d \<Rightarrow> Inr (d, distortion_error_tensor)) of
        Inl e \<Rightarrow> Inl (e, self)
      | Inr (d, de) \<Rightarrow>
     (case RD self d de of
        Inl e \<Rightarrow> Inl (e, self)
      | Inr (zc, zce) \<Rightarrow>
     (case scale_factor self of
        Inl e \<Rightarrow> Inl (e, self)
      | Inr f \<Rightarrow>
          (let z_corrected = arr_times zc f;
               z_corrected_error = arr_times zce f
           in if inplace
              then (case z_setter (Some z_corrected) self of
                      Inl x \<Rightarrow> Inl x
                    | Inr self1 \<Rightarrow>
                   (case z_error_setter (Some z_corrected_error) self1 of
                      Inl x \<Rightarrow> Inl x
                    | Inr self2 \<Rightarrow> Inr (self2, None)))
              else (case z_model_error_getter self of
                      Inl e \<Rightarrow> Inl (e, self)
                    | Inr zme \<Rightarrow>
                   (case Z_init (ohm_factor self) (Some z_corrected) (Some z_corrected_error)
                           (frequency self) zme ''mt'' of
                      Inl e \<Rightarrow> Inl (e, self)
                    | Inr z_object \<Rightarrow>
                   (case units_setter (units self) z_object of
                      Inl (e, _) \<Rightarrow> Inl (e, self)
                    | Inr z_object' \<Rightarrow> Inr (self, Some z_object'))))))))"

subsection \<open>Scenarios and example objects\<close>

text \<open>
  The round trip through the property: an object is constructed without data under the
  unit \<open>U\<close>, the array \<open>X\<close> is assigned through the setter of \<^verbatim>\<open>z\<close> and read back through
  its getter. \<open>init_roundtrip\<close> hands \<open>X\<close> to the constructor instead.
\<close>

definition z_roundtrip :: "real \<Rightarrow> string \<Rightarrow> carray \<Rightarrow> error + carray option" where
  "z_roundtrip MT_TO_OHM_FACTOR U X =
     (case Z_init MT_TO_OHM_FACTOR None None None None U of
        Inl e \<Rightarrow> Inl e
      | Inr self \<Rightarrow>
          (case z_setter (Some X) self of
             Inl (e, _) \<Rightarrow> Inl e
           | Inr self' \<Rightarrow> z_getter self'))"

definition init_roundtrip :: "real \<Rightarrow> string \<Rightarrow> carray \<Rightarrow> error + carray option" where
  "init_roundtrip MT_TO_OHM_FACTOR U X =
     (case Z_init MT_TO_OHM_FACTOR (Some X) None None None U of
        Inl e \<Rightarrow> Inl e
      | Inr self \<Rightarrow> z_getter self)"

text \<open>The dimensionality of one frequency as the specification words it: 3 where the
  absolute skew exceeds its threshold, otherwise 2 where the eccentricity exceeds its
  threshold, otherwise 1.\<close>

definition dimension_of :: "real \<Rightarrow> real \<Rightarrow> real \<Rightarrow> real \<Rightarrow> int" where
  "dimension_of skew_threshold eccentricity_threshold ecc sk =
     (if \<bar>sk\<bar> > skew_threshold then 3 else if ecc > eccentricity_threshold then 2 else 1)"

text \<open>Example objects under a conversion constant of 2: one in resistance units with all
  arrays stored, one that holds a frequency axis of three entries only, and the empty
  object in resistance units.\<close>

definition z_example :: Z where
  "z_example = \<lparr>ohm_factor = 2, units = ''ohm'', transfer_function = Some [Mat2 4 0 0 4],
     transfer_function_error = Some [Mat2 2 0 0 2],
     transfer_function_model_error = Some [Mat2 2 2 2 2], frequency = Some [1]\<rparr>"

definition z_three :: Z where
  "z_three = \<lparr>ohm_factor = 2, units = ''mt'', transfer_function = None,
     transfer_function_error = None, transfer_function_model_error = None,
     frequency = Some [1, 2, 3]\<rparr>"

definition z_empty :: Z where
  "z_empty = \<lparr>ohm_factor = 2, units = ''ohm'', transfer_function = None,
     transfer_function_error = None, transfer_function_model_error = None,
     frequency = None\<rparr>"

definition pt_example :: phase_tensor_ctor where
  "pt_example z ze zme fr = Inr \<lparr>eccentricity = [0, 0.2, 0], skew = [0, 0, 10]\<rparr>"

text \<open>The example of the specification: one frequency in field units.\<close>

definition z_field :: Z where
  "z_field = \<lparr>ohm_factor = 2, units = ''mt'',
     transfer_function =
       Some [Mat2 (Complex 1 1) (Complex 0.1 0.1) (Complex 0.1 0.1) (Complex 1 1)],
     transfer_function_error = None, transfer_function_model_error = None,
     frequency = Some [1]\<rparr>"

text \<open>The tensor that \<^verbatim>\<open>set_resistivity_phase\<close> assigns: one matrix, and the whole array.\<close>

definition rebuild :: "real \<Rightarrow> real mat2 \<Rightarrow> real mat2 \<Rightarrow> complex mat2" where
  "rebuild w m p =
     zip_mat2 (\<lambda>a v. of_real a * exp (\<i> * of_real (radians v)))
       (map_mat2 (\<lambda>x. sqrt (5.0 * w * x)) m) p"

definition rebuild_all :: "real list \<Rightarrow> farray \<Rightarrow> farray \<Rightarrow> carray" where
  "rebuild_all fr res ph =
     map (\<lambda>(abs_z, p). zip_mat2 (\<lambda>a v. of_real a * exp (\<i> * of_real (radians v))) abs_z p)
       (zip (map (\<lambda>(w, m). map_mat2 (\<lambda>x. sqrt (5.0 * w * x)) m) (zip fr res)) ph)"

text \<open>The static-shift correction as the specification words it: the xx, xy row divided
  by the square root of the x factor, the yx, yy row by that of the y factor.\<close>

definition static_shift :: "real \<Rightarrow> real \<Rightarrow> carray \<Rightarrow> carray" where
  "static_shift factor_x factor_y a =
     map (\<lambda>m. Mat2 (c_xx m / of_real (sqrt factor_x)) (c_xy m / of_real (sqrt factor_x))
                   (c_yx m / of_real (sqrt factor_y)) (c_yy m / of_real (sqrt factor_y))) a"

text \<open>The shape invariants of the data model: the arrays present share their leading
  dimension, and the frequency, when present, is positive and of that length.\<close>

definition shapes_consistent :: "Z \<Rightarrow> bool" where
  "shapes_consistent self =
     (let n = established (transfer_function self) (transfer_function_error self)
                (transfer_function_model_error self) in
      (transfer_function_error self = None \<or> shape (transfer_function_error self) = n)
      \<and> (transfer_function_model_error self = None
           \<or> shape (transfer_function_model_error self) = n)
      \<and> (case frequency self of
            None \<Rightarrow> True
          | Some fr \<Rightarrow> list_all (\<lambda>f. 0 < f) fr \<and> (n = None \<or> n = Some (length fr))))"

text \<open>Example collaborators for the distortion removal, which return fixed arrays of one
  frequency, and the object that \<^verbatim>\<open>remove_distortion\<close> returns for the example object.\<close>

definition rd_example :: remove_distortion_fn where
  "rd_example self d de = Inr ([Mat2 1 0 0 1], [Mat2 0 0 0 0])"

definition fd_example :: find_distortion_fn where
  "fd_example self comp_arg only_2d clockwise = Inr (Mat2 1 0 0 1, Mat2 0 0 0 0)"

definition z_undistorted :: Z where
  "z_undistorted = \<lparr>ohm_factor = 2, units = ''ohm'', transfer_function = Some [Mat2 2 0 0 2],
     transfer_function_error = Some [Mat2 0 0 0 0],
     transfer_function_model_error = Some [Mat2 1 1 1 1], frequency = Some [1]\<rparr>"

section \<open>Properties\<close>

subsection \<open>Auxiliary facts\<close>

lemma lower_units: "lower ''mt'' = ''mt''" "lower ''ohm'' = ''ohm''"
  by (simp_all add: lower_def lower_char_def)

lemma map_mat2_ident: "map (map_mat2 (\<lambda>x. x)) X = X"
  by (induction X) (simp_all add: mat2.map_ident)

lemma arr_div_one: "arr_div X 1 = X"
  by (simp add: arr_div_def map_mat2_ident)

lemma arr_times_div:
  fixes X :: "('a::real_normed_field) mat2 list"
  shows "f \<noteq> 0 \<Longrightarrow> arr_div (arr_times X f) f = X"
  by (simp add: arr_div_def arr_times_def mat2.map_comp o_def map_mat2_ident)

lemma arr_div_times:
  fixes X :: "('a::real_normed_field) mat2 list"
  shows "f \<noteq> 0 \<Longrightarrow> arr_times (arr_div X f) f = X"
  by (simp add: arr_div_def arr_times_def mat2.map_comp o_def map_mat2_ident)

lemma validate_array_input_None [simp]: "validate_array_input None n = Inr None"
  by (simp add: validate_array_input_def)

lemma validate_array_input_Inr: "validate_array_input v n = Inr r \<Longrightarrow> r = v"
  by (auto simp: validate_array_input_def split: option.splits if_splits)

lemma validate_frequency_Inr:
  "validate_frequency fr n = Inr r \<Longrightarrow>
     r = fr \<and> list_all (\<lambda>f. 0 < f) fr \<and> (n = None \<or> n = Some (length fr))"
  by (auto simp: validate_frequency_def split: option.splits if_splits)

text \<open>What a successful initialisation of the container stores and has checked.\<close>

lemma TFBase_init_Inr:
  assumes "TFBase_init s0 tf tfe tfme fq = Inr self"
  shows "self = s0\<lparr>transfer_function := tf, transfer_function_error := tfe,
                  transfer_function_model_error := tfme, frequency := fq\<rparr>"
    and "fq = Some fr \<Longrightarrow> tf = Some a \<Longrightarrow> length a = length fr"
    and "fq = Some fr \<Longrightarrow> list_all (\<lambda>f. 0 < f) fr"
proof -
  from assms obtain tfe' tfme' where
    v1: "validate_array_input tfe (established tf tfe tfme) = Inr tfe'" and
    v2: "validate_array_input tfme (established tf tfe tfme) = Inr tfme'"
    by (auto simp: TFBase_init_def Let_def split: sum.splits)
  have e1: "tfe' = tfe" and e2: "tfme' = tfme"
    using v1 v2 by (auto dest: validate_array_input_Inr)
  show "self = s0\<lparr>transfer_function := tf, transfer_function_error := tfe,
                  transfer_function_model_error := tfme, frequency := fq\<rparr>"
    using assms v1 v2 e1 e2
    by (auto simp: TFBase_init_def Let_def split: sum.splits option.splits
        dest: validate_frequency_Inr)
  show "fq = Some fr \<Longrightarrow> tf = Some a \<Longrightarrow> length a = length fr"
    using assms v1 v2
    by (auto simp: TFBase_init_def Let_def established_def split: sum.splits option.splits
        dest!: validate_frequency_Inr)
  show "fq = Some fr \<Longrightarrow> list_all (\<lambda>f. 0 < f) fr"
    using assms v1 v2
    by (auto simp: TFBase_init_def Let_def split: sum.splits option.splits
        dest!: validate_frequency_Inr)
qed

lemma Z_init_fields:
  assumes "Z_init c z ze fq zme U = Inr self"
  shows "frequency self = fq" and "units self = U" and "ohm_factor self = c"
    and "has_tf self = (z \<noteq> None)"
    and "fq = Some fr \<Longrightarrow> has_tf self \<Longrightarrow> shape (transfer_function self) = Some (length fr)"
proof -
  from assms obtain s1 tf tfe tfme where
    u: "units_setter U \<lparr>ohm_factor = c, units = [], transfer_function = None,
          transfer_function_error = None, transfer_function_model_error = None,
          frequency = None\<rparr> = Inr s1"
    and t: "TFBase_init s1 tf tfe tfme fq = Inr self"
    and z: "(tf = None) = (z = None)"
    by (auto simp: Z_init_def Let_def split: sum.splits if_splits prod.splits)
  have s1: "s1 = \<lparr>ohm_factor = c, units = U, transfer_function = None,
          transfer_function_error = None, transfer_function_model_error = None,
          frequency = None\<rparr>"
    using u by (auto simp: units_setter_def split: if_splits)
  note r = TFBase_init_Inr [OF t]
  show "frequency self = fq" "units self = U" "ohm_factor self = c"
    using r(1) s1 by simp_all
  show "has_tf self = (z \<noteq> None)" using r(1) z by (simp add: has_tf_def)
  show "fq = Some fr \<Longrightarrow> has_tf self \<Longrightarrow> shape (transfer_function self) = Some (length fr)"
    using r(1) r(2) [of fr] by (auto simp: has_tf_def shape_def)
qed

lemma Z_init_frequency_only:
  "Z_init 2 None None (Some [1, 2]) None ''mt'' =
     Inr \<lparr>ohm_factor = 2, units = ''mt'', transfer_function = None,
          transfer_function_error = None, transfer_function_model_error = None,
          frequency = Some [1, 2]\<rparr>"
  by (simp add: Z_init_def units_setter_def unit_factors_def IMPEDANCE_UNITS_def lower_units
      TFBase_init_def established_def shape_def validate_frequency_def)


lemma z_empty_facts: "is_empty z_empty" "scale_factor z_empty = Inr 2"
  by (simp_all add: is_empty_def has_tf_def has_tf_error_def has_tf_model_error_def
      has_frequency_def scale_factor_def unit_factors_def IMPEDANCE_UNITS_def z_empty_def)

lemma scale_factor_example: "scale_factor z_example = Inr 2"
  by (simp add: scale_factor_def z_example_def unit_factors_def IMPEDANCE_UNITS_def)

lemma z_getter_example: "z_getter z_example = Inr (Some [Mat2 2 0 0 2])"
  by (simp add: z_getter_def has_tf_def scale_factor_example arr_div_def)
    (simp add: z_example_def)

subsection \<open>Unit scaling at the property (C1)\<close>

lemma z_roundtrip_mt: "z_roundtrip c ''mt'' X = Inr (Some X)"
  by (simp add: z_roundtrip_def Z_init_def units_setter_def unit_factors_def
      IMPEDANCE_UNITS_def lower_units TFBase_init_def established_def shape_def
      validate_array_input_def z_setter_def has_tf_def has_frequency_def is_empty_def
      has_tf_error_def has_tf_model_error_def initialize_def z_getter_def scale_factor_def
      arr_div_one)

lemma z_roundtrip_ohm: "z_roundtrip c ''ohm'' X = Inr (Some (arr_div X c))"
  by (simp add: z_roundtrip_def Z_init_def units_setter_def unit_factors_def
      IMPEDANCE_UNITS_def lower_units TFBase_init_def established_def shape_def
      validate_array_input_def z_setter_def has_tf_def has_frequency_def is_empty_def
      has_tf_error_def has_tf_model_error_def initialize_def z_getter_def scale_factor_def)

lemma init_roundtrip_mt: "init_roundtrip c ''mt'' X = Inr (Some X)"
  by (simp add: init_roundtrip_def Z_init_def units_setter_def unit_factors_def
      IMPEDANCE_UNITS_def lower_units TFBase_init_def established_def shape_def
      validate_array_input_def has_tf_def z_getter_def scale_factor_def arr_times_div)

lemma init_roundtrip_ohm: "c \<noteq> 0 \<Longrightarrow> init_roundtrip c ''ohm'' X = Inr (Some X)"
  by (simp add: init_roundtrip_def Z_init_def units_setter_def unit_factors_def
      IMPEDANCE_UNITS_def lower_units TFBase_init_def established_def shape_def
      validate_array_input_def has_tf_def z_getter_def scale_factor_def arr_times_div)

text \<open>
  The round trip through the setter fails for every conversion constant other than 0 and
  1, at the one-frequency identity matrix.
\<close>

lemma z_roundtrip_ohm_differs:
  "c \<noteq> 1 \<Longrightarrow> z_roundtrip c ''ohm'' [Mat2 1 0 0 1] \<noteq> Inr (Some [Mat2 1 0 0 1])"
  by (simp add: z_roundtrip_ohm arr_div_def)

text \<open>
  C1 as stated: under every recognised unit, assigning \<open>X\<close> through the setter of \<^verbatim>\<open>z\<close> and
  reading \<^verbatim>\<open>z\<close> back returns \<open>X\<close>. This fails in resistance units: with a conversion
  constant of 2, the one-frequency identity matrix comes back halved.
\<close>

theorem z_roundtrip_ohm_counterexample:
  "z_roundtrip 2 ''ohm'' [Mat2 1 0 0 1] = Inr (Some [Mat2 (1 / 2) 0 0 (1 / 2)])
   \<and> z_roundtrip 2 ''ohm'' [Mat2 1 0 0 1] \<noteq> Inr (Some [Mat2 1 0 0 1])"
  by (simp add: z_roundtrip_ohm arr_div_def)

text \<open>
  C1, amended: the setter of \<^verbatim>\<open>z\<close> stores the array as it is given and the getter divides
  by the scale factor of the unit. Reading back after the setter returns \<open>X\<close> under the
  unit \<^verbatim>\<open>mt\<close> (factor 1) and \<open>X\<close> divided by the conversion constant under the unit \<^verbatim>\<open>ohm\<close>.
  The write that multiplies by the scale factor is the constructor: an array handed to it
  is read back unchanged under both units (for a non-zero conversion constant).
\<close>

theorem z_setter_getter_scaling:
  "z_roundtrip c ''mt'' X = Inr (Some X)
   \<and> z_roundtrip c ''ohm'' X = Inr (Some (arr_div X c))
   \<and> init_roundtrip c ''mt'' X = Inr (Some X)
   \<and> (c \<noteq> 0 \<longrightarrow> init_roundtrip c ''ohm'' X = Inr (Some X))"
  by (simp add: z_roundtrip_mt z_roundtrip_ohm init_roundtrip_mt init_roundtrip_ohm)

theorem z_setter_getter_scaling_witness:
  "z_roundtrip 2 ''mt'' [Mat2 \<i> 0 0 1] = Inr (Some [Mat2 \<i> 0 0 1])
   \<and> z_roundtrip 2 ''ohm'' [Mat2 \<i> 0 0 1] = Inr (Some (arr_div [Mat2 \<i> 0 0 1] 2))
   \<and> init_roundtrip 2 ''mt'' [Mat2 \<i> 0 0 1] = Inr (Some [Mat2 \<i> 0 0 1])
   \<and> init_roundtrip 2 ''ohm'' [Mat2 \<i> 0 0 1] = Inr (Some [Mat2 \<i> 0 0 1])"
  using z_setter_getter_scaling [of 2 "[Mat2 \<i> 0 0 1]"] by simp

subsection \<open>Rejection of a tensor of the wrong length (C6)\<close>

text \<open>
  C6: an object constructed with a frequency array of length N rejects the assignment of
  a tensor of M frequencies, M different from N, through the setter of \<^verbatim>\<open>z\<close>: the
  shape-mismatch error names N as expected and M as received, and the object the
  exception leaves is the object before the call (tensor, errors and frequency included).
\<close>

theorem z_setter_shape_mismatch:
  assumes "Z_init c z0 ze0 (Some fr) zme0 U = Inr self"
    and "length X \<noteq> length fr"
  shows "z_setter (Some X) self = Inl (ShapeMismatchError (length fr) (length X), self)"
proof -
  note f = Z_init_fields [OF assms(1)]
  have "(if has_tf self then shape (transfer_function self)
         else if has_frequency self then shape (frequency self) else None) = Some (length fr)"
    using f(1) f(5) [of fr] by (simp add: has_frequency_def shape_def)
  then show ?thesis
    using assms(2) by (simp add: z_setter_def validate_array_input_def)
qed

theorem z_setter_shape_mismatch_witness:
  "z_setter (Some [Mat2 1 0 0 1])
      \<lparr>ohm_factor = 2, units = ''mt'', transfer_function = None,
       transfer_function_error = None, transfer_function_model_error = None,
       frequency = Some [1, 2]\<rparr>
   = Inl (ShapeMismatchError 2 1,
      \<lparr>ohm_factor = 2, units = ''mt'', transfer_function = None,
       transfer_function_error = None, transfer_function_model_error = None,
       frequency = Some [1, 2]\<rparr>)"
  using z_setter_shape_mismatch [OF Z_init_frequency_only, of "[Mat2 1 0 0 1]"] by simp

subsection \<open>Dimensionality (C8)\<close>

lemma fold_update:
  "fold (\<lambda>i b. b[i := v]) idx a = map (\<lambda>j. if j \<in> set idx then v else a ! j) [0..<length a]"
proof (induction idx arbitrary: a)
  case Nil
  show ?case by (simp add: map_nth)
next
  case (Cons i idx)
  have "fold (\<lambda>i b. b[i := v]) (i # idx) a = fold (\<lambda>i b. b[i := v]) idx (a[i := v])"
    by simp
  also have "\<dots> = map (\<lambda>j. if j \<in> set idx then v else a[i := v] ! j) [0..<length a]"
    using Cons.IH [of "a[i := v]"] by simp
  also have "\<dots> = map (\<lambda>j. if j \<in> set (i # idx) then v else a ! j) [0..<length a]"
    by (rule map_cong) (auto simp: nth_list_update)
  finally show ?case .
qed

lemma assign_where_same_length:
  assumes "length cond = length a"
  shows "assign_where cond v a = Inr (map (\<lambda>j. if cond ! j then v else a ! j) [0..<length a])"
proof -
  have "\<not> list_ex (\<lambda>i. length a \<le> i) (filter (\<lambda>i. cond ! i) [0..<length cond])"
    using assms by (auto simp: list_ex_iff)
  moreover have
    "map (\<lambda>j. if j \<in> set (filter (\<lambda>i. cond ! i) [0..<length cond]) then v else a ! j)
       [0..<length a]
     = map (\<lambda>j. if cond ! j then v else a ! j) [0..<length a]"
    using assms by (intro map_cong) auto
  ultimately show ?thesis
    by (simp add: assign_where_def Let_def fold_update)
qed

lemma phase_tensor_three:
  "phase_tensor pt_example z_three = Inr \<lparr>eccentricity = [0, 0.2, 0], skew = [0, 0, 10]\<rparr>"
  by (simp add: phase_tensor_def z_getter_def z_error_getter_def z_model_error_getter_def
      has_tf_def has_tf_error_def has_tf_model_error_def z_three_def pt_example_def)

lemma upt_3: "[0..<3] = [0, 1, 2]"
  by (simp add: upt_rec)

text \<open>
  C8: for an object with N frequencies whose phase tensor gives N eccentricities and N
  skews, \<^verbatim>\<open>estimate_dimensionality\<close> returns N integers, each of them 1, 2 or 3: entry j is
  3 where the absolute skew exceeds the skew threshold (the later assignment wins), else
  2 where the eccentricity exceeds its threshold, else 1. The witness is the example of
  the specification: skew [0, 0, 10] and eccentricity [0, 0.2, 0] with the thresholds 5
  and 0.1 give [1, 2, 3].
\<close>

theorem estimate_dimensionality_result:
  assumes "frequency self = Some fr"
    and "phase_tensor PT self = Inr pt"
    and "length (eccentricity pt) = length fr"
    and "length (skew pt) = length fr"
  shows "estimate_dimensionality PT self st et =
           Inr (map (\<lambda>j. dimension_of st et (eccentricity pt ! j) (skew pt ! j))
                  [0..<length fr])
         \<and> list_all (\<lambda>d. d = 1 \<or> d = 2 \<or> d = 3)
             (map (\<lambda>j. dimension_of st et (eccentricity pt ! j) (skew pt ! j))
                [0..<length fr])"
proof -
  let ?d1 = "map (\<lambda>j. if map (\<lambda>x. x > et) (eccentricity pt) ! j then 2
                       else replicate (length fr) (1::int) ! j) [0..<length fr]"
  have a1: "assign_where (map (\<lambda>x. x > et) (eccentricity pt)) 2 (replicate (length fr) 1)
              = Inr ?d1"
    using assign_where_same_length
      [of "map (\<lambda>x. x > et) (eccentricity pt)" "replicate (length fr) 1" 2] assms(3)
    by simp
  have a2: "assign_where (map (\<lambda>x. \<bar>x\<bar> > st) (skew pt)) 3 ?d1
      = Inr (map (\<lambda>j. if map (\<lambda>x. \<bar>x\<bar> > st) (skew pt) ! j then 3 else ?d1 ! j)
               [0..<length ?d1])"
    by (rule assign_where_same_length) (simp add: assms(4))
  have "map (\<lambda>j. if map (\<lambda>x. \<bar>x\<bar> > st) (skew pt) ! j then 3 else ?d1 ! j) [0..<length ?d1]
      = map (\<lambda>j. dimension_of st et (eccentricity pt ! j) (skew pt ! j)) [0..<length fr]"
    using assms(3,4) by (auto simp: dimension_of_def)
  with a1 a2 have "estimate_dimensionality PT self st et =
           Inr (map (\<lambda>j. dimension_of st et (eccentricity pt ! j) (skew pt ! j))
                  [0..<length fr])"
    using assms(1,2) by (simp add: estimate_dimensionality_def period_size_def)
  moreover have "list_all (\<lambda>d. d = 1 \<or> d = 2 \<or> d = 3)
             (map (\<lambda>j. dimension_of st et (eccentricity pt ! j) (skew pt ! j))
                [0..<length fr])"
    by (auto simp: list_all_iff dimension_of_def)
  ultimately show ?thesis by simp
qed

theorem estimate_dimensionality_example:
  "estimate_dimensionality pt_example z_three 5 0.1 = Inr [1, 2, 3]"
  using estimate_dimensionality_result [of z_three "[1, 2, 3]" pt_example
      "\<lparr>eccentricity = [0, 0.2, 0], skew = [0, 0, 10]\<rparr>" 5 "0.1"] phase_tensor_three
  by (simp add: z_three_def upt_3 dimension_of_def)

subsection \<open>The model-error setter on an empty object (C9)\<close>






subsection \<open>A scalar x factor with a sequence y factor (C10)\<close>

lemma validate_scalar:
  "z_getter self = Inr (Some zd) \<Longrightarrow>
   validate_ss_input self fx (Scalar r) = Inr (replicate (length zd) r)"
  by (simp add: validate_ss_input_def validate_factor_single_def len_z_def)

text \<open>Whatever iterable factor is validated, the branch for a sequence of one element
  takes the length of \<^verbatim>\<open>reduce_res_factor_x\<close>, which a number does not have.\<close>

lemma validate_after_scalar_x:
  "np_iterable fy \<Longrightarrow> validate_ss_input self (Scalar r) fy = Inl TypeError"
  by (simp add: validate_ss_input_def)

text \<open>
  C10: on an object with a tensor, \<^verbatim>\<open>remove_ss\<close> with a number as
  \<^verbatim>\<open>reduce_res_factor_x\<close> and a sequence of one element (a list or an array) as
  \<^verbatim>\<open>reduce_res_factor_y\<close> raises \<^verbatim>\<open>TypeError\<close>, in place or not, and leaves the object as
  it was: neither the correction is applied nor a \<^verbatim>\<open>ValueError\<close> raised.
\<close>

theorem remove_ss_scalar_x_sequence_y:
  assumes "z_getter self = Inr (Some zd)"
  shows "remove_ss self (Scalar r) (PyList [v]) inplace = Inl (TypeError, self)
       \<and> remove_ss self (Scalar r) (NdArray [v]) inplace = Inl (TypeError, self)"
  using assms by (simp add: remove_ss_def validate_scalar validate_after_scalar_x)

theorem remove_ss_scalar_x_sequence_y_witness:
  "z_getter z_example = Inr (Some [Mat2 2 0 0 2])
   \<and> remove_ss z_example (Scalar 2) (PyList [3]) False = Inl (TypeError, z_example)"
  using remove_ss_scalar_x_sequence_y [of z_example "[Mat2 2 0 0 2]" 2 3 False]
    z_getter_example
  by simp

subsection \<open>Resistivity and phase (C4)\<close>

lemma z_getter_stored:
  assumes "transfer_function self = Some Zc" "scale_factor self = Inr f"
  shows "z_getter self = Inr (Some (arr_div Zc f))"
  using assms by (simp add: z_getter_def has_tf_def)

lemma zip_same_eq: "length xs = length ys \<Longrightarrow> zip_same xs ys = Inr (zip xs ys)"
  by (simp add: zip_same_def)

lemma get_component_xx: "get_component ''xx'' (Some a) = Inr (Some (map c_xx a))"
  by (simp add: get_component_def index_dict_def mat2_at_def)

text \<open>Resistivity and phase in terms of the stored tensor.\<close>

lemma resistivity_phase_stored:
  assumes "transfer_function self = Some Zc"
    and "frequency self = Some fr"
    and "length fr = length Zc"
    and "scale_factor self = Inr f"
    and "f \<noteq> 0"
  shows "resistivity self =
           Inr (Some (map2 (\<lambda>m w. map_mat2 (\<lambda>x. (cmod x)\<^sup>2 / w * 0.2) m) Zc fr))"
    and "phase self = Inr (Some (map (map_mat2 (\<lambda>x. rad2deg (Arg x))) Zc))"
proof -
  have g: "z_getter self = Inr (Some (arr_div Zc f))"
    using assms(1,4) by (rule z_getter_stored)
  have unscale: "arr_times (arr_div Zc f) f = Zc"
    using assms(5) by (rule arr_div_times)
  show "resistivity self =
           Inr (Some (map2 (\<lambda>m w. map_mat2 (\<lambda>x. (cmod x)\<^sup>2 / w * 0.2) m) Zc fr))"
    using assms(2,3,4) by (simp add: resistivity_def g unscale zip_same_eq)
  show "phase self = Inr (Some (map (map_mat2 (\<lambda>x. rad2deg (Arg x))) Zc))"
    using assms(4) by (simp add: phase_def g unscale)
qed

text \<open>
  C4: for an object with tensor and frequency of the same length (and a non-zero scale
  factor), \<^verbatim>\<open>resistivity\<close> is \<open>|Z|\<^sup>2 / frequency * 0.2\<close> and \<^verbatim>\<open>phase\<close> is the angle in
  degrees of each entry of the stored, canonical tensor \<open>Z\<close>; \<^verbatim>\<open>res_xx\<close> and \<^verbatim>\<open>phase_xx\<close>
  are their xx components. The witness is the example of the specification: the tensor
  with xx = 1+1j at frequency 1.0 in field units has \<^verbatim>\<open>res_xx\<close> 0.4 and \<^verbatim>\<open>phase_xx\<close> 45.
\<close>

theorem resistivity_phase_formula:
  assumes "transfer_function self = Some Zc"
    and "frequency self = Some fr"
    and "length fr = length Zc"
    and "scale_factor self = Inr f"
    and "f \<noteq> 0"
  shows "resistivity self =
           Inr (Some (map2 (\<lambda>m w. map_mat2 (\<lambda>x. (cmod x)\<^sup>2 / w * 0.2) m) Zc fr))
       \<and> phase self = Inr (Some (map (map_mat2 (\<lambda>x. rad2deg (Arg x))) Zc))
       \<and> res_xx self = Inr (Some (map2 (\<lambda>m w. (cmod (c_xx m))\<^sup>2 / w * 0.2) Zc fr))
       \<and> phase_xx self = Inr (Some (map (\<lambda>m. rad2deg (Arg (c_xx m))) Zc))"
proof -
  note rp = resistivity_phase_stored [OF assms]
  have rx: "res_xx self = Inr (Some (map2 (\<lambda>m w. (cmod (c_xx m))\<^sup>2 / w * 0.2) Zc fr))"
    by (simp add: res_xx_def rp(1) get_component_xx mat2.map_sel split_def)
  have px: "phase_xx self = Inr (Some (map (\<lambda>m. rad2deg (Arg (c_xx m))) Zc))"
    by (simp add: phase_xx_def rp(2) get_component_xx mat2.map_sel)
  from rp rx px show ?thesis by simp
qed

lemma Arg_1_1: "Arg (Complex 1 1) = pi / 4"
proof (rule cis_Arg_unique)
  show "sgn (Complex 1 1) = cis (pi / 4)"
    by (simp add: sgn_eq complex_eq_iff cmod_def cos_45 sin_45 real_div_sqrt)
  show "- pi < pi / 4" using pi_gt_zero by linarith
  show "pi / 4 \<le> pi" using pi_gt_zero by linarith
qed

lemma Z_init_field:
  "Z_init 2 (Some [Mat2 (Complex 1 1) (Complex 0.1 0.1) (Complex 0.1 0.1) (Complex 1 1)])
     None (Some [1]) None ''mt'' = Inr z_field"
  by (simp add: Z_init_def units_setter_def unit_factors_def IMPEDANCE_UNITS_def lower_units
      TFBase_init_def established_def shape_def validate_frequency_def scale_factor_def
      arr_times_def z_field_def)

theorem resistivity_phase_example:
  "Z_init 2 (Some [Mat2 (Complex 1 1) (Complex 0.1 0.1) (Complex 0.1 0.1) (Complex 1 1)])
     None (Some [1]) None ''mt'' = Inr z_field
   \<and> res_xx z_field = Inr (Some [0.4])
   \<and> phase_xx z_field = Inr (Some [45])"
proof -
  have sf: "scale_factor z_field = Inr 1"
    by (simp add: scale_factor_def unit_factors_def IMPEDANCE_UNITS_def z_field_def)
  have tf: "transfer_function z_field =
      Some [Mat2 (Complex 1 1) (Complex 0.1 0.1) (Complex 0.1 0.1) (Complex 1 1)]"
    and fr: "frequency z_field = Some [1]"
    by (simp_all add: z_field_def)
  have "(cmod (Complex 1 1))\<^sup>2 = 2"
    by (simp add: cmod_def)
  then show ?thesis
    using resistivity_phase_formula [OF tf fr _ sf]
    by (simp add: Z_init_field Arg_1_1 rad2deg_def)
qed

subsection \<open>Reconstruction from resistivity and phase (C3)\<close>

lemma rad2deg_radians: "rad2deg (radians v) = v"
  by (simp add: rad2deg_def radians_def)

lemma Arg_polar:
  assumes "0 < a" "- pi < t" "t \<le> pi"
  shows "Arg (of_real a * exp (\<i> * of_real t)) = t"
proof (rule cis_Arg_unique)
  have "sgn (of_real a * cis t) = sgn (complex_of_real a) * sgn (cis t)"
    by (rule sgn_mult)
  also have "\<dots> = cis t"
    using assms(1) by (simp add: sgn_of_real sgn_eq)
  finally show "sgn (of_real a * exp (\<i> * of_real t)) = cis t"
    by (simp add: cis_conv_exp)
qed (use assms in auto)

lemma cmod_polar: "0 \<le> a \<Longrightarrow> cmod (of_real a * exp (\<i> * of_real t)) = a"
  by (simp add: norm_mult)

lemma entry_res:
  assumes "0 < w" "0 \<le> x"
  shows "(cmod (of_real (sqrt (5.0 * w * x)) * exp (\<i> * of_real (radians v))))\<^sup>2 / w * 0.2 = x"
proof -
  have "0 \<le> 5.0 * w * x" using assms by simp
  then show ?thesis using assms(1) by (simp add: cmod_polar)
qed

lemma entry_phase:
  assumes "0 < w" "0 < x" "- 180 < v" "v \<le> 180"
  shows "rad2deg (Arg (of_real (sqrt (5.0 * w * x)) * exp (\<i> * of_real (radians v)))) = v"
proof -
  have a: "0 < sqrt (5.0 * w * x)" using assms(1,2) by simp
  have "- 180 * pi < v * pi"
    using mult_strict_right_mono [OF assms(3) pi_gt_zero] by simp
  then have lo: "- pi < radians v" by (simp add: radians_def)
  have "v * pi \<le> 180 * pi"
    using mult_right_mono [OF assms(4), of pi] pi_gt_zero by simp
  then have hi: "radians v \<le> pi" by (simp add: radians_def)
  show ?thesis using Arg_polar [OF a lo hi] by (simp add: rad2deg_radians)
qed

lemma mat_res:
  assumes "0 < w" "pred_mat2 (\<lambda>x. 0 \<le> x) m"
  shows "map_mat2 (\<lambda>x. (cmod x)\<^sup>2 / w * 0.2) (rebuild w m p) = m"
proof -
  obtain a b c d where m: "m = Mat2 a b c d" by (cases m)
  obtain pa pb pc pd where p: "p = Mat2 pa pb pc pd" by (cases p)
  have nn: "0 \<le> a" "0 \<le> b" "0 \<le> c" "0 \<le> d"
    using assms(2) m by simp_all
  show ?thesis
    using entry_res [OF assms(1) nn(1), of pa] entry_res [OF assms(1) nn(2), of pb]
      entry_res [OF assms(1) nn(3), of pc] entry_res [OF assms(1) nn(4), of pd]
    by (simp add: m p rebuild_def zip_mat2_def)
qed

lemma mat_phase:
  assumes "0 < w" "pred_mat2 (\<lambda>x. 0 < x) m" "pred_mat2 (\<lambda>v. - 180 < v \<and> v \<le> 180) p"
  shows "map_mat2 (\<lambda>x. rad2deg (Arg x)) (rebuild w m p) = p"
proof -
  obtain a b c d where m: "m = Mat2 a b c d" by (cases m)
  obtain pa pb pc pd where p: "p = Mat2 pa pb pc pd" by (cases p)
  have pos: "0 < a" "0 < b" "0 < c" "0 < d"
    using assms(2) m by simp_all
  have rng: "- 180 < pa" "pa \<le> 180" "- 180 < pb" "pb \<le> 180"
    "- 180 < pc" "pc \<le> 180" "- 180 < pd" "pd \<le> 180"
    using assms(3) p by simp_all
  show ?thesis
    using entry_phase [OF assms(1) pos(1) rng(1,2)] entry_phase [OF assms(1) pos(2) rng(3,4)]
      entry_phase [OF assms(1) pos(3) rng(5,6)] entry_phase [OF assms(1) pos(4) rng(7,8)]
    by (simp add: m p rebuild_def zip_mat2_def)
qed

lemma rebuild_all_Cons:
  "rebuild_all (w # fr) (m # res) (p # ph) = rebuild w m p # rebuild_all fr res ph"
  by (simp add: rebuild_all_def rebuild_def)

lemma length_rebuild_all:
  "length res = length fr \<Longrightarrow> length ph = length fr \<Longrightarrow> length (rebuild_all fr res ph) = length fr"
  by (simp add: rebuild_all_def)

lemma all_res:
  assumes "length fr = length res" "length res = length ph"
    and "list_all (\<lambda>f. 0 < f) fr" "list_all (pred_mat2 (\<lambda>x. 0 \<le> x)) res"
  shows "map2 (\<lambda>m w. map_mat2 (\<lambda>x. (cmod x)\<^sup>2 / w * 0.2) m) (rebuild_all fr res ph) fr = res"
  using assms
proof (induction fr res ph rule: list_induct3)
  case Nil
  show ?case by (simp add: rebuild_all_def)
next
  case (Cons w fr m res p ph)
  then show ?case using mat_res [of w m p] by (simp add: rebuild_all_Cons)
qed

lemma all_phase:
  assumes "length fr = length res" "length res = length ph"
    and "list_all (\<lambda>f. 0 < f) fr" "list_all (pred_mat2 (\<lambda>x. 0 < x)) res"
    and "list_all (pred_mat2 (\<lambda>v. - 180 < v \<and> v \<le> 180)) ph"
  shows "map (map_mat2 (\<lambda>x. rad2deg (Arg x))) (rebuild_all fr res ph) = ph"
  using assms
proof (induction fr res ph rule: list_induct3)
  case Nil
  show ?case by (simp add: rebuild_all_def)
next
  case (Cons w fr m res p ph)
  then show ?case using mat_phase [of w m p] by (simp add: rebuild_all_Cons)
qed

lemma pos_nonneg:
  "list_all (pred_mat2 (\<lambda>x. 0 < x)) res \<Longrightarrow> list_all (pred_mat2 (\<lambda>x. (0::real) \<le> x)) res"
  by (induction res) (auto simp: mat2.pred_set intro: less_imp_le)

text \<open>What the call does to the object.\<close>

lemma set_resistivity_phase_state:
  assumes comp: "established (transfer_function self) (transfer_function_error self)
                   (transfer_function_model_error self) = None
                 \<or> established (transfer_function self) (transfer_function_error self)
                   (transfer_function_model_error self) = Some (length fr)"
    and pos: "list_all (\<lambda>f. 0 < f) fr"
    and len: "length res = length fr" "length ph = length fr"
  shows "set_resistivity_phase self (Some res) (Some ph) (Some fr) None None None None =
           Inr (self\<lparr>frequency := Some fr, transfer_function := Some (rebuild_all fr res ph)\<rparr>)"
proof -
  let ?s1 = "self\<lparr>frequency := Some fr\<rparr>"
  have vf: "validate_frequency fr None = Inr fr"
    using pos by (simp add: validate_frequency_def)
  have fs: "frequency_setter (Some fr) self = Inr ?s1"
    using comp pos by (auto simp: frequency_setter_def validate_frequency_def)
  have shp: "(if has_tf ?s1 then shape (transfer_function ?s1)
              else if has_frequency ?s1 then shape (frequency ?s1) else None)
             = Some (length fr)"
    using comp by (auto simp: has_tf_def has_frequency_def shape_def established_def
        split: option.splits)
  have zs: "z_setter (Some (rebuild_all fr res ph)) ?s1 =
              Inr (?s1\<lparr>transfer_function := Some (rebuild_all fr res ph)\<rparr>)"
    unfolding z_setter_def Let_def shp
    using len by (simp add: validate_array_input_def length_rebuild_all is_empty_def
        has_frequency_def)
  show ?thesis
    using len zs
    by (simp add: set_resistivity_phase_def vf fs validate_array_input_def zip_same_def
        rebuild_all_def compute_z_error_def z_error_setter_def z_model_error_setter_def)
qed

text \<open>
  C3, amended: on an object whose stored arrays, if any, have the length of the new
  frequency array (and with a non-zero scale factor), \<^verbatim>\<open>set_resistivity_phase\<close> with a
  positive frequency, a resistivity whose entries are all positive and a phase with
  entries in (-180, 180] succeeds, and reading \<^verbatim>\<open>resistivity\<close> and \<^verbatim>\<open>phase\<close> afterwards
  returns the two inputs.
\<close>

theorem set_resistivity_phase_roundtrip:
  assumes "established (transfer_function self) (transfer_function_error self)
                   (transfer_function_model_error self) = None
                 \<or> established (transfer_function self) (transfer_function_error self)
                   (transfer_function_model_error self) = Some (length fr)"
    and "scale_factor self = Inr f" and "f \<noteq> 0"
    and "list_all (\<lambda>f. 0 < f) fr"
    and "length res = length fr" and "length ph = length fr"
    and "list_all (pred_mat2 (\<lambda>x. 0 < x)) res"
    and "list_all (pred_mat2 (\<lambda>v. - 180 < v \<and> v \<le> 180)) ph"
  shows "(case set_resistivity_phase self (Some res) (Some ph) (Some fr) None None None None of
            Inl x \<Rightarrow> False
          | Inr self' \<Rightarrow>
              resistivity self' = Inr (Some res) \<and> phase self' = Inr (Some ph))"
proof -
  let ?s = "self\<lparr>frequency := Some fr, transfer_function := Some (rebuild_all fr res ph)\<rparr>"
  have st: "set_resistivity_phase self (Some res) (Some ph) (Some fr) None None None None
              = Inr ?s"
    using assms(1,4,5,6) by (rule set_resistivity_phase_state)
  have sf: "scale_factor ?s = Inr f"
    using assms(2) by (simp add: scale_factor_def unit_factors_def)
  have l: "length fr = length (rebuild_all fr res ph)"
    using assms(5,6) by (simp add: length_rebuild_all)
  note rp = resistivity_phase_stored [of ?s "rebuild_all fr res ph" fr f, OF _ _ l sf assms(3)]
  have "resistivity ?s = Inr (Some res)"
    using rp(1) all_res [of fr res ph] assms(4,5,6) pos_nonneg [OF assms(7)] by simp
  moreover have "phase ?s = Inr (Some ph)"
    using rp(2) all_phase [of fr res ph] assms(4,5,6,7,8) by simp
  ultimately show ?thesis by (simp add: st)
qed

lemma established_empty:
  "established (transfer_function z_empty) (transfer_function_error z_empty)
     (transfer_function_model_error z_empty) = None
   \<or> established (transfer_function z_empty) (transfer_function_error z_empty)
     (transfer_function_model_error z_empty) = Some (length fr)"
  by (simp add: established_def shape_def z_empty_def)

text \<open>
  C3 as stated admits a resistivity of zero. There the reconstructed tensor entry is
  zero, whose angle is zero whatever the phase given: a resistivity of 0 with a phase of
  90 degrees at frequency 1 reads back a phase of 0.
\<close>

theorem set_resistivity_phase_zero_counterexample:
  "set_resistivity_phase z_empty (Some [Mat2 0 0 0 0]) (Some [Mat2 90 90 90 90]) (Some [1])
       None None None None
     = Inr (z_empty\<lparr>frequency := Some [1], transfer_function := Some [Mat2 0 0 0 0]\<rparr>)
   \<and> phase (z_empty\<lparr>frequency := Some [1], transfer_function := Some [Mat2 0 0 0 0]\<rparr>)
       = Inr (Some [Mat2 0 0 0 0])
   \<and> phase (z_empty\<lparr>frequency := Some [1], transfer_function := Some [Mat2 0 0 0 0]\<rparr>)
       \<noteq> Inr (Some [Mat2 90 90 90 90])"
proof -
  have r: "rebuild_all [1] [Mat2 0 0 0 0] [Mat2 90 90 90 90] = [Mat2 0 0 0 0]"
    by (simp add: rebuild_all_def zip_mat2_def)
  have st: "set_resistivity_phase z_empty (Some [Mat2 0 0 0 0]) (Some [Mat2 90 90 90 90])
       (Some [1]) None None None None
     = Inr (z_empty\<lparr>frequency := Some [1], transfer_function := Some [Mat2 0 0 0 0]\<rparr>)"
    using set_resistivity_phase_state [OF established_empty, of "[1]" "[Mat2 0 0 0 0]" "[Mat2 90 90 90 90]"]
    by (simp add: r)
  have sf: "scale_factor (z_empty\<lparr>frequency := Some [1], transfer_function := Some [Mat2 0 0 0 0]\<rparr>) = Inr 2"
    using z_empty_facts(2) by (simp add: scale_factor_def unit_factors_def)
  have ph: "phase (z_empty\<lparr>frequency := Some [1], transfer_function := Some [Mat2 0 0 0 0]\<rparr>)
       = Inr (Some [Mat2 0 0 0 0])"
    by (simp add: phase_def z_getter_def has_tf_def sf arr_div_def arr_times_def Arg_zero
        rad2deg_def)
  show ?thesis using st ph by simp
qed

theorem set_resistivity_phase_roundtrip_witness:
  "scale_factor z_empty = Inr 2
   \<and> (case set_resistivity_phase z_empty (Some [Mat2 1 2 3 4]) (Some [Mat2 45 90 180 (- 90)])
             (Some [2]) None None None None of
         Inl x \<Rightarrow> False
       | Inr self' \<Rightarrow>
           resistivity self' = Inr (Some [Mat2 1 2 3 4])
           \<and> phase self' = Inr (Some [Mat2 45 90 180 (- 90)]))"
  using set_resistivity_phase_roundtrip [OF established_empty z_empty_facts(2),
      of "[2]" "[Mat2 1 2 3 4]" "[Mat2 45 90 180 (- 90)]"]
  by (simp add: z_empty_facts)

subsection \<open>Determinant errors (C2)\<close>

lemma det2_scaled:
  "f \<noteq> 0 \<Longrightarrow>
   det2 (mat_plus (map_mat2 (\<lambda>x. x / of_real f) m) (map_mat2 (\<lambda>x. x / f) e))
     = det2 (mat_plus m e) / (of_real f)\<^sup>2"
  "f \<noteq> 0 \<Longrightarrow>
   det2 (mat_minus (map_mat2 (\<lambda>x. x / of_real f) m) (map_mat2 (\<lambda>x. x / f) e))
     = det2 (mat_minus m e) / (of_real f)\<^sup>2"
  by (cases m; cases e; simp add: det2_def mat_plus_def mat_minus_def power2_eq_square
      field_simps)+

lemma det_diff_scaled:
  assumes "0 < f"
  shows "det_diff (map_mat2 (\<lambda>x. x / of_real f) m, map_mat2 (\<lambda>x. x / f) e)
           = det_diff (m, e) / f"
proof -
  have f0: "f \<noteq> 0" using assms by simp
  let ?d = "det2 (mat_plus m e) - det2 (mat_minus m e)"
  have "det2 (mat_plus (map_mat2 (\<lambda>x. x / of_real f) m) (map_mat2 (\<lambda>x. x / f) e))
        - det2 (mat_minus (map_mat2 (\<lambda>x. x / of_real f) m) (map_mat2 (\<lambda>x. x / f) e))
        = ?d / (of_real f)\<^sup>2"
    by (simp only: det2_scaled [OF f0] diff_divide_distrib)
  then have "det_diff (map_mat2 (\<lambda>x. x / of_real f) m, map_mat2 (\<lambda>x. x / f) e)
        = sqrt (cmod (?d / (of_real f)\<^sup>2) / 2)"
    by (simp only: det_diff_def prod.case)
  also have "cmod (?d / (of_real f)\<^sup>2) = cmod ?d / f\<^sup>2"
    by (simp add: norm_divide norm_power)
  also have "sqrt (cmod ?d / f\<^sup>2 / 2) = sqrt (cmod ?d / 2) / f"
    using assms by (simp add: real_sqrt_divide real_sqrt_mult)
  finally show ?thesis by (simp only: det_diff_def prod.case)
qed

lemma map2_det_diff_scaled:
  assumes "0 < f"
  shows "map g (map det_diff (zip (arr_div Zc f) (arr_div Ec f)))
           = map (\<lambda>t. g (det_diff t / f)) (zip Zc Ec)"
proof -
  have "zip (arr_div Zc f) (arr_div Ec f)
          = map (\<lambda>(m, e). (map_mat2 (\<lambda>x. x / of_real f) m, map_mat2 (\<lambda>x. x / f) e)) (zip Zc Ec)"
    by (simp add: arr_div_def zip_map_map)
  then show ?thesis
    by (simp add: o_def split_def det_diff_scaled [OF assms])
qed

text \<open>
  C2, amended: \<^verbatim>\<open>det_error\<close> is the scale factor times
  \<open>sqrt(|det(z+e) - det(z-e)| / 2)\<close> on the arrays \<open>z\<close>, \<open>e\<close> as the getters return them (in
  display units), and \<^verbatim>\<open>det_model_error\<close> is the same formula on the display-unit tensor
  and model error without the factor: the asymmetry is one multiplication by the scale
  factor, not a division. In terms of the stored canonical arrays (positive scale
  factor) \<^verbatim>\<open>det_error\<close> carries no scale factor at all and \<^verbatim>\<open>det_model_error\<close> is the
  canonical formula divided by the scale factor.
\<close>

theorem det_error_scaling:
  assumes "transfer_function self = Some Zc"
    and "scale_factor self = Inr f" and "0 < f"
  shows "(transfer_function_error self = Some Ec \<and> length Ec = length Zc \<longrightarrow>
            det_error self
              = Inr (Some (map (\<lambda>t. f * det_diff t) (zip (arr_div Zc f) (arr_div Ec f))))
          \<and> det_error self = Inr (Some (map det_diff (zip Zc Ec))))
       \<and> (transfer_function_model_error self = Some Mc \<and> length Mc = length Zc \<longrightarrow>
            det_model_error self
              = Inr (Some (map det_diff (zip (arr_div Zc f) (arr_div Mc f))))
          \<and> det_model_error self = Inr (Some (map (\<lambda>t. det_diff t / f) (zip Zc Mc))))"
proof -
  have g: "z_getter self = Inr (Some (arr_div Zc f))"
    using assms(1,2) by (rule z_getter_stored)
  have e: "det_error self
              = Inr (Some (map (\<lambda>t. f * det_diff t) (zip (arr_div Zc f) (arr_div Ec f))))"
    if "transfer_function_error self = Some Ec" "length Ec = length Zc"
    using that assms(2)
    by (simp add: det_error_def z_error_getter_def has_tf_error_def g zip_same_def arr_div_def)
  have m: "det_model_error self
              = Inr (Some (map det_diff (zip (arr_div Zc f) (arr_div Mc f))))"
    if "transfer_function_model_error self = Some Mc" "length Mc = length Zc"
    using that assms(2)
    by (simp add: det_model_error_def z_model_error_getter_def has_tf_model_error_def g
        zip_same_def arr_div_def)
  have e': "map (\<lambda>t. f * det_diff t) (zip (arr_div Zc f) (arr_div Ec f))
              = map det_diff (zip Zc Ec)"
    using map2_det_diff_scaled [OF assms(3), of "\<lambda>x. f * x" Zc Ec] assms(3)
    by (simp add: o_def)
  have m': "map det_diff (zip (arr_div Zc f) (arr_div Mc f))
              = map (\<lambda>t. det_diff t / f) (zip Zc Mc)"
    using map2_det_diff_scaled [OF assms(3), of "\<lambda>x. x" Zc Mc] by simp
  show ?thesis
    using e m e' m' by simp
qed

lemma sqrt_16: "sqrt 16 = 4"
proof -
  have "sqrt 16 = sqrt (4\<^sup>2)" by simp
  then show ?thesis by (simp only: real_sqrt_abs abs_numeral)
qed

text \<open>
  C2 as stated: \<^verbatim>\<open>det_error\<close> is the formula divided by the scale factor. With scale factor
  2, tensor diag(2, 2) and error diag(1, 1) in display units (diag(4, 4) and diag(2, 2)
  stored), \<^verbatim>\<open>det_error\<close> is 4, while the formula divided by the scale factor is 1 on the
  display-unit arrays and 2 on the stored ones.
\<close>

theorem det_error_division_counterexample:
  "z_getter z_example = Inr (Some [Mat2 2 0 0 2])
   \<and> z_error_getter z_example = Inr (Some [Mat2 1 0 0 1])
   \<and> scale_factor z_example = Inr 2
   \<and> det_error z_example = Inr (Some [4])
   \<and> det_diff (Mat2 2 0 0 2, Mat2 1 0 0 1) / 2 = 1
   \<and> det_diff (Mat2 4 0 0 4, Mat2 2 0 0 2) / 2 = 2
   \<and> det_error z_example \<noteq> Inr (Some [det_diff (Mat2 2 0 0 2, Mat2 1 0 0 1) / 2])
   \<and> det_error z_example \<noteq> Inr (Some [det_diff (Mat2 4 0 0 4, Mat2 2 0 0 2) / 2])"
proof -
  have eg: "z_error_getter z_example = Inr (Some [Mat2 1 0 0 1])"
    by (simp add: z_error_getter_def has_tf_error_def scale_factor_example arr_div_def)
      (simp add: z_example_def)
  have d1: "det_diff (Mat2 2 0 0 2, Mat2 1 0 0 1) = 2"
    by (simp add: det_diff_def det2_def mat_plus_def mat_minus_def)
  have d2: "det_diff (Mat2 4 0 0 4, Mat2 2 0 0 2) = 4"
    by (simp add: det_diff_def det2_def mat_plus_def mat_minus_def sqrt_16)
  have de: "det_error z_example = Inr (Some [4])"
    by (simp add: det_error_def eg z_getter_example scale_factor_example zip_same_def d1)
  show ?thesis
    by (simp add: z_getter_example eg scale_factor_example de d1 d2)
qed

theorem det_error_scaling_witness:
  "transfer_function z_example = Some [Mat2 4 0 0 4]
   \<and> scale_factor z_example = Inr 2
   \<and> det_error z_example = Inr (Some [det_diff (Mat2 4 0 0 4, Mat2 2 0 0 2)])
   \<and> det_model_error z_example = Inr (Some [det_diff (Mat2 4 0 0 4, Mat2 2 2 2 2) / 2])"
proof -
  have tf: "transfer_function z_example = Some [Mat2 4 0 0 4]"
    by (simp add: z_example_def)
  have e: "transfer_function_error z_example = Some [Mat2 2 0 0 2]"
    and m: "transfer_function_model_error z_example = Some [Mat2 2 2 2 2]"
    by (simp_all add: z_example_def)
  have le: "length [Mat2 2 0 0 (2::real)] = length [Mat2 4 0 0 (4::complex)]"
    and lm: "length [Mat2 2 2 2 (2::real)] = length [Mat2 4 0 0 (4::complex)]"
    by simp_all
  note t = det_error_scaling [OF tf scale_factor_example zero_less_numeral,
      of "[Mat2 2 0 0 2]" "[Mat2 2 2 2 2]"]
  from t e le have de: "det_error z_example
      = Inr (Some (map det_diff (zip [Mat2 4 0 0 4] [Mat2 2 0 0 2])))"
    by blast
  from t m lm have dm: "det_model_error z_example
      = Inr (Some (map (\<lambda>t. det_diff t / 2) (zip [Mat2 4 0 0 4] [Mat2 2 2 2 2])))"
    by blast
  show ?thesis
    by (simp add: tf scale_factor_example de dm)
qed

subsection \<open>Static shift and its inverse (C5)\<close>

lemma scale_factor_units:
  assumes "scale_factor self = Inr f"
  shows "units self = ''mt'' \<or> units self = ''ohm''"
  using assms
  by (auto simp: scale_factor_def unit_factors_def IMPEDANCE_UNITS_def split: option.splits if_splits)

lemma units_setter_same:
  assumes "scale_factor self = Inr f"
  shows "units_setter (units self) \<lparr>ohm_factor = ohm_factor self, units = [],
            transfer_function = None, transfer_function_error = None,
            transfer_function_model_error = None, frequency = None\<rparr>
         = Inr \<lparr>ohm_factor = ohm_factor self, units = units self,
            transfer_function = None, transfer_function_error = None,
            transfer_function_model_error = None, frequency = None\<rparr>"
  using scale_factor_units [OF assms]
  by (auto simp: units_setter_def unit_factors_def IMPEDANCE_UNITS_def lower_units)

lemma length_arr [simp]: "length (arr_times a f) = length a" "length (arr_div a f) = length a"
  by (simp_all add: arr_times_def arr_div_def)

lemma Z_init_rebuild:
  assumes sf: "scale_factor self = Inr f"
    and e: "ze = None \<or> shape ze = Some (length zc)"
    and m: "zme = None \<or> shape zme = Some (length zc)"
    and q: "case fq of None \<Rightarrow> True
            | Some fr \<Rightarrow> list_all (\<lambda>f. 0 < f) fr \<and> length fr = length zc"
  shows "Z_init (ohm_factor self) (Some zc) ze fq zme (units self) =
           Inr (self\<lparr>transfer_function := Some (arr_times zc f),
                  transfer_function_error := map_option (\<lambda>a. arr_times a f) ze,
                  transfer_function_model_error := map_option (\<lambda>a. arr_times a f) zme,
                  frequency := fq\<rparr>)"
proof -
  let ?s1 = "\<lparr>ohm_factor = ohm_factor self, units = units self,
            transfer_function = None, transfer_function_error = None,
            transfer_function_model_error = None, frequency = None\<rparr>"
  have sf1: "scale_factor ?s1 = Inr f"
    using sf by (simp add: scale_factor_def unit_factors_def)
  have t: "TFBase_init ?s1 (Some (arr_times zc f)) (map_option (\<lambda>a. arr_times a f) ze)
             (map_option (\<lambda>a. arr_times a f) zme) fq
           = Inr (?s1\<lparr>transfer_function := Some (arr_times zc f),
                  transfer_function_error := map_option (\<lambda>a. arr_times a f) ze,
                  transfer_function_model_error := map_option (\<lambda>a. arr_times a f) zme,
                  frequency := fq\<rparr>)"
    using e m q
    by (auto simp: TFBase_init_def established_def validate_array_input_def shape_def
        validate_frequency_def split: option.splits)
  show ?thesis
    unfolding Z_init_def Let_def units_setter_same [OF sf]
    by (simp add: sf1 t)
qed

lemma ss_rows:
  assumes "f \<noteq> 0"
  shows "map (ss_correct f) (zip (arr_div Zc f) (replicate (length Zc) (sqrt fx, sqrt fy)))
         = static_shift fx fy Zc"
proof -
  have "zip (arr_div Zc f) (replicate (length Zc) (sqrt fx, sqrt fy))
        = map (\<lambda>m. (map_mat2 (\<lambda>x. x / of_real f) m, sqrt fx, sqrt fy)) Zc"
    by (simp add: zip_replicate2 arr_div_def)
  then show ?thesis
    using assms by (simp add: static_shift_def ss_correct_def o_def mat2.map_sel)
qed

lemma remove_ss_scalars:
  assumes tf: "transfer_function self = Some Zc"
    and ok: "shapes_consistent self"
    and sf: "scale_factor self = Inr f"
    and f0: "f \<noteq> 0"
  shows "remove_ss self (Scalar fx) (Scalar fy) False
          = Inr (self, Some (self\<lparr>transfer_function := Some (static_shift fx fy Zc)\<rparr>))"
proof -
  have g: "z_getter self = Inr (Some (arr_div Zc f))"
    using tf sf by (simp add: z_getter_def has_tf_def)
  have ge: "z_error_getter self = Inr (map_option (\<lambda>a. arr_div a f) (transfer_function_error self))"
    using sf by (auto simp: z_error_getter_def has_tf_error_def)
  have gm: "z_model_error_getter self
             = Inr (map_option (\<lambda>a. arr_div a f) (transfer_function_model_error self))"
    using sf by (auto simp: z_model_error_getter_def has_tf_model_error_def)
  let ?zc = "arr_div (static_shift fx fy Zc) f"
  have l: "length ?zc = length Zc" by (simp add: static_shift_def)
  have ce: "transfer_function_error self = None
            \<or> shape (transfer_function_error self) = Some (length Zc)"
    and cm: "transfer_function_model_error self = None
            \<or> shape (transfer_function_model_error self) = Some (length Zc)"
    and cq: "case frequency self of None \<Rightarrow> True
            | Some fr \<Rightarrow> list_all (\<lambda>f. 0 < f) fr \<and> length fr = length Zc"
    using ok tf
    by (auto simp: shapes_consistent_def Let_def established_def split: option.splits)
  have e: "map_option (\<lambda>a. arr_div a f) (transfer_function_error self) = None
         \<or> shape (map_option (\<lambda>a. arr_div a f) (transfer_function_error self)) = Some (length ?zc)"
    using ce unfolding l by (auto simp: shape_def)
  have m: "map_option (\<lambda>a. arr_div a f) (transfer_function_model_error self) = None
         \<or> shape (map_option (\<lambda>a. arr_div a f) (transfer_function_model_error self))
             = Some (length ?zc)"
    using cm unfolding l by (auto simp: shape_def)
  have q: "case frequency self of None \<Rightarrow> True
            | Some fr \<Rightarrow> list_all (\<lambda>f. 0 < f) fr \<and> length fr = length ?zc"
    using cq unfolding l by simp
  have unscale: "map_option (\<lambda>a. arr_times a f) (map_option (\<lambda>a. arr_div a f) x) = x"
    for x :: "('a::real_normed_field) mat2 list option"
    using f0 by (cases x) (simp_all add: arr_div_times)
  have init: "Z_init (ohm_factor self) (Some ?zc)
                 (map_option (\<lambda>a. arr_div a f) (transfer_function_error self))
                 (frequency self)
                 (map_option (\<lambda>a. arr_div a f) (transfer_function_model_error self))
                 (units self)
              = Inr (self\<lparr>transfer_function := Some (static_shift fx fy Zc)\<rparr>)"
    unfolding Z_init_rebuild [OF sf e m q]
    using f0 by (simp add: unscale arr_div_times)
  show ?thesis
    by (simp add: remove_ss_def validate_scalar [OF g] g sf Let_def ss_rows [OF f0] ge gm init)
qed

lemma static_shift_inverse:
  assumes "0 < fx" "0 < fy"
  shows "static_shift (1 / fx) (1 / fy) (static_shift fx fy Zc) = Zc"
proof -
  have "sqrt fx \<noteq> 0" "sqrt fy \<noteq> 0" using assms by simp_all
  then have "Mat2 (c_xx m / of_real (sqrt fx) / of_real (sqrt (1 / fx)))
                  (c_xy m / of_real (sqrt fx) / of_real (sqrt (1 / fx)))
                  (c_yx m / of_real (sqrt fy) / of_real (sqrt (1 / fy)))
                  (c_yy m / of_real (sqrt fy) / of_real (sqrt (1 / fy))) = m" for m :: "complex mat2"
    by (cases m) (simp add: real_sqrt_divide)
  then show ?thesis
    by (simp add: static_shift_def o_def map_idI)
qed

text \<open>
  C5: on an object with a tensor, consistent shapes and a non-zero scale factor,
  \<^verbatim>\<open>remove_ss\<close> with positive numbers \<open>fx\<close>, \<open>fy\<close> and \<^verbatim>\<open>inplace=False\<close> leaves the object as it is
  and returns a new object that differs from it in the tensor only, whose xx, xy row is
  divided by \<open>sqrt fx\<close> and whose yx, yy row by \<open>sqrt fy\<close> (error arrays, frequency and units
  are those of the original); applying \<^verbatim>\<open>remove_ss\<close> with \<open>1 / fx\<close>, \<open>1 / fy\<close> to that object
  returns the original object, tensor included.
\<close>

theorem remove_ss_inverse:
  assumes "transfer_function self = Some Zc"
    and "shapes_consistent self"
    and "scale_factor self = Inr f" and "f \<noteq> 0"
    and "0 < fx" and "0 < fy"
  shows "remove_ss self (Scalar fx) (Scalar fy) False
           = Inr (self, Some (self\<lparr>transfer_function := Some (static_shift fx fy Zc)\<rparr>))
       \<and> remove_ss (self\<lparr>transfer_function := Some (static_shift fx fy Zc)\<rparr>)
             (Scalar (1 / fx)) (Scalar (1 / fy)) False
           = Inr (self\<lparr>transfer_function := Some (static_shift fx fy Zc)\<rparr>, Some self)"
proof -
  let ?s1 = "self\<lparr>transfer_function := Some (static_shift fx fy Zc)\<rparr>"
  have first: "remove_ss self (Scalar fx) (Scalar fy) False = Inr (self, Some ?s1)"
    using assms(1-4) by (rule remove_ss_scalars)
  have tf1: "transfer_function ?s1 = Some (static_shift fx fy Zc)" by simp
  have ok1: "shapes_consistent ?s1"
    using assms(1,2) by (simp add: shapes_consistent_def Let_def established_def static_shift_def)
  have sf1: "scale_factor ?s1 = Inr f"
    using assms(3) by (simp add: scale_factor_def unit_factors_def)
  have "remove_ss ?s1 (Scalar (1 / fx)) (Scalar (1 / fy)) False
          = Inr (?s1, Some (?s1\<lparr>transfer_function :=
                   Some (static_shift (1 / fx) (1 / fy) (static_shift fx fy Zc))\<rparr>))"
    using tf1 ok1 sf1 assms(4) by (rule remove_ss_scalars)
  moreover have "?s1\<lparr>transfer_function :=
                   Some (static_shift (1 / fx) (1 / fy) (static_shift fx fy Zc))\<rparr> = self"
    using assms(1) by (simp add: static_shift_inverse [OF assms(5,6)])
  ultimately show ?thesis using first by simp
qed

lemma z_example_consistent: "shapes_consistent z_example"
  by (simp add: shapes_consistent_def Let_def established_def shape_def z_example_def)

theorem remove_ss_inverse_witness:
  "shapes_consistent z_example \<and> scale_factor z_example = Inr 2
   \<and> remove_ss z_example (Scalar 4) (Scalar 4) False
       = Inr (z_example, Some (z_example\<lparr>transfer_function := Some [Mat2 2 0 0 2]\<rparr>))
   \<and> remove_ss (z_example\<lparr>transfer_function := Some [Mat2 2 0 0 2]\<rparr>)
         (Scalar (1 / 4)) (Scalar (1 / 4)) False
       = Inr (z_example\<lparr>transfer_function := Some [Mat2 2 0 0 2]\<rparr>, Some z_example)"
proof -
  have tf: "transfer_function z_example = Some [Mat2 4 0 0 4]"
    by (simp add: z_example_def)
  have s: "static_shift 4 4 [Mat2 4 0 0 4] = [Mat2 2 0 0 2]"
    by (simp add: static_shift_def)
  show ?thesis
    using remove_ss_inverse [OF tf z_example_consistent scale_factor_example, of 4 4]
    by (simp add: s z_example_consistent scale_factor_example)
qed

subsection \<open>The model error after a distortion removal (C7)\<close>

lemma z_model_error_getter_example:
  "z_model_error_getter z_example = Inr (Some [Mat2 1 1 1 1])"
  by (simp add: z_model_error_getter_def has_tf_model_error_def scale_factor_example
      arr_div_def) (simp add: z_example_def)

lemma Z_init_undistorted:
  "Z_init 2 (Some [Mat2 2 0 0 2]) (Some [Mat2 0 0 0 0]) (Some [1]) (Some [Mat2 1 1 1 1]) ''mt''
     = Inr (z_undistorted\<lparr>units := ''mt''\<rparr>)"
  by (simp add: Z_init_def units_setter_def unit_factors_def IMPEDANCE_UNITS_def lower_units
      TFBase_init_def established_def shape_def validate_frequency_def scale_factor_def
      validate_array_input_def arr_times_def z_undistorted_def)

text \<open>
  C7 says that the object returned by \<^verbatim>\<open>remove_distortion\<close> with \<^verbatim>\<open>inplace=False\<close> has the
  model error of the original. The new object is constructed with the default units from
  \<^verbatim>\<open>self.z_model_error\<close>, which is in display units, and gets the units of the original
  afterwards. In resistance units its model error is therefore the original one divided
  by the scale factor once more: with scale factor 2 the model error 1 of the example
  object is read as 1/2 from the returned object. Frequency and units are carried over,
  and the original object is unchanged.
\<close>

theorem remove_distortion_model_error_rescaled:
  "remove_distortion fd_example rd_example z_example (Some (Mat2 1 0 0 1)) None None ''det''
       False False = Inr (z_example, Some z_undistorted)
   \<and> z_model_error_getter z_example = Inr (Some [Mat2 1 1 1 1])
   \<and> z_model_error_getter z_undistorted = Inr (Some [Mat2 (1 / 2) (1 / 2) (1 / 2) (1 / 2)])
   \<and> units z_undistorted = units z_example
   \<and> frequency z_undistorted = frequency z_example"
proof -
  have fr: "frequency z_example = Some [1]" and of: "ohm_factor z_example = 2"
    and un: "units z_example = ''ohm''"
    by (simp_all add: z_example_def)
  have us: "units_setter ''ohm'' (z_undistorted\<lparr>units := ''mt''\<rparr>) = Inr z_undistorted"
    by (simp add: units_setter_def unit_factors_def IMPEDANCE_UNITS_def lower_units
        z_undistorted_def)
  have rd: "remove_distortion fd_example rd_example z_example (Some (Mat2 1 0 0 1)) None None
       ''det'' False False = Inr (z_example, Some z_undistorted)"
    by (simp add: remove_distortion_def rd_example_def scale_factor_example arr_times_def
        z_model_error_getter_example fr of un Z_init_undistorted us)
  have sf: "scale_factor z_undistorted = Inr 2"
    by (simp add: scale_factor_def unit_factors_def IMPEDANCE_UNITS_def z_undistorted_def)
  have g: "z_model_error_getter z_undistorted = Inr (Some [Mat2 (1 / 2) (1 / 2) (1 / 2) (1 / 2)])"
    by (simp add: z_model_error_getter_def has_tf_model_error_def sf arr_div_def)
      (simp add: z_undistorted_def)
  show ?thesis
    by (simp add: rd z_model_error_getter_example g) (simp add: z_undistorted_def z_example_def)
qed

end
